theory Spec2Isabelle
  imports Main "HOL-Library.Word"
begin

unbundle bit_operations_syntax

section \<open>Machine types and pin numbers\<close>

text \<open>
  Both programs run on an ATmega328P built with AVR-GCC: \<open>uint8_t\<close> is an 8-bit word,
  \<open>uint16_t\<close> is \<open>unsigned int\<close> (16 bits, the width of \<open>int\<close> on this target) and
  \<open>long\<close> has 32 bits. The pin numbers are those of \<open>avr/io.h\<close> for this part.
\<close>

type_synonym u8 = "8 word"
type_synonym u16 = "16 word"

definition PC1 :: nat where [simp]: "PC1 = 1"
definition PC3 :: nat where [simp]: "PC3 = 3"
definition PC4 :: nat where [simp]: "PC4 = 4"
definition PD0 :: nat where [simp]: "PD0 = 0"
definition PD1 :: nat where [simp]: "PD1 = 1"
definition PD2 :: nat where [simp]: "PD2 = 2"
definition PD3 :: nat where [simp]: "PD3 = 3"
definition PD6 :: nat where [simp]: "PD6 = 6"

text \<open>The C expression \<open>(1 << n)\<close> as a byte.\<close>

definition BIT :: "nat \<Rightarrow> u8" where
  "BIT n = push_bit n 1"

section \<open>Transmitter (Transmissor/main.c)\<close>

subsection \<open>The wire codes\<close>

text \<open>
  The thirteen commands of the protocol and the byte each one travels as; the bytes are
  the case labels of the receiver's \<open>switch (cmd)\<close> and the return values of \<open>get_cmd\<close>.
\<close>

datatype command =
    RESET_LIVES | TOGGLE_A | TOGGLE_B | TOGGLE_C
  | REVERSE | STOP | FORWARD | LEFT | RIGHT
  | FORWARD_LEFT | FORWARD_RIGHT | REVERSE_LEFT | REVERSE_RIGHT

fun wire_code :: "command \<Rightarrow> u8" where
  "wire_code RESET_LIVES = 0xA1"
| "wire_code TOGGLE_A = 0xA2"
| "wire_code TOGGLE_B = 0xA3"
| "wire_code TOGGLE_C = 0xA4"
| "wire_code REVERSE = 0xA5"
| "wire_code STOP = 0xA6"
| "wire_code FORWARD = 0xA7"
| "wire_code LEFT = 0xA8"
| "wire_code RIGHT = 0xAA"
| "wire_code FORWARD_LEFT = 0xAB"
| "wire_code FORWARD_RIGHT = 0xAC"
| "wire_code REVERSE_LEFT = 0xAD"
| "wire_code REVERSE_RIGHT = 0xAE"

subsection \<open>get_cmd\<close>

text \<open>
  \<open>x_dir\<close> and \<open>y_dir\<close> are \<open>int8_t\<close>; the sum \<open>(x_dir + 1) * 3 + (y_dir + 1)\<close> is
  computed in \<open>int\<close> on the sign-extended values and stored in the \<open>uint8_t estado\<close>.
  The comparisons are unsigned, as \<open>x\<close> and \<open>y\<close> are \<open>uint16_t\<close>. The \<open>switch\<close> is an
  if-chain in the order of its labels.
\<close>

definition get_cmd :: "u16 \<Rightarrow> u16 \<Rightarrow> u8" where
  "get_cmd x y =
    (let x_dir = (if x < 200 then - 1 else if x > 800 then 1 else 0 :: 8 word);
         y_dir = (if y < 200 then - 1 else if y > 800 then 1 else 0 :: 8 word);
         estado = (word_of_int ((sint x_dir + 1) * 3 + (sint y_dir + 1)) :: u8)
     in if estado = 4 then 0xA6
        else if estado = 5 then 0xA7
        else if estado = 3 then 0xA5
        else if estado = 1 then 0xA8
        else if estado = 7 then 0xAA
        else if estado = 2 then 0xAB
        else if estado = 8 then 0xAC
        else if estado = 0 then 0xAD
        else if estado = 6 then 0xAE
        else 0xA6)"

subsection \<open>The speed byte\<close>

text \<open>
  The body of the main loop that computes \<open>velocidade_final\<close> from the Y reading.
  \<open>y - 801\<close> and \<open>199 - y\<close> are 16-bit unsigned subtractions; the product with \<open>255L\<close>
  is a \<open>long\<close>, at most \<open>65535 * 255\<close>, so it cannot overflow 32 bits and is modelled
  in \<open>int\<close>. Both operands of \<open>/\<close> are non-negative, where C's truncating division and
  \<open>div\<close> agree. The cast \<open>(uint8_t)\<close> is \<open>word_of_int\<close>.
\<close>

definition velocidade_final :: "u16 \<Rightarrow> u8" where
  "velocidade_final y =
    (if y > 800 then
       (let temp_vel = uint (y - 801) * 255;
            temp_vel = 255 - temp_vel div 222;
            temp_vel = (if temp_vel < 0 then 0 else temp_vel)
        in word_of_int temp_vel)
     else if y < 200 then
       (let temp_vel = uint (199 - y) * 255;
            temp_vel = 255 - temp_vel div 199;
            temp_vel = (if temp_vel < 0 then 0 else temp_vel)
        in word_of_int temp_vel)
     else 255)"

subsection \<open>One pass of the transmitter's loop\<close>

text \<open>
  \<open>data_packet pind x y\<close> is the two-byte payload written to the radio in a pass of the
  loop that read \<open>PIND = pind\<close>, \<open>adc_valor(3) = x\<close> and \<open>adc_valor(2) = y\<close>: the command
  byte first, the speed byte second. The buttons pull their pins low, so the selector is
  the low nibble of the complement of \<open>PIND\<close>.
\<close>

definition data_packet :: "u8 \<Rightarrow> u16 \<Rightarrow> u16 \<Rightarrow> u8 \<times> u8" where
  "data_packet pind x y =
    (let sel = (NOT pind) AND 0x0F
     in (if sel = BIT PD0 then 0xA1
         else if sel = BIT PD1 then 0xA2
         else if sel = BIT PD2 then 0xA3
         else if sel = BIT PD3 then 0xA4
         else get_cmd x y,
         velocidade_final y))"

subsection \<open>The encoder as the specification words it\<close>

text \<open>
  \<open>quantizeAxis\<close>, \<open>mapAxesToCommand\<close> and \<open>computeSpeed\<close> follow the wording of the
  specification (section 4.1), over unbounded integers; they are compared with the code
  above.
\<close>

definition quantizeAxis :: "int \<Rightarrow> int" where
  "quantizeAxis raw = (if raw < 200 then - 1 else if raw > 800 then 1 else 0)"

definition mapAxesToCommand :: "int \<Rightarrow> int \<Rightarrow> command" where
  "mapAxesToCommand xDir yDir =
    (if xDir = 0 \<and> yDir = 0 then STOP
     else if xDir = 0 \<and> yDir = 1 then FORWARD
     else if xDir = 0 \<and> yDir = - 1 then REVERSE
     else if xDir = - 1 \<and> yDir = 0 then LEFT
     else if xDir = 1 \<and> yDir = 0 then RIGHT
     else if xDir = - 1 \<and> yDir = 1 then FORWARD_LEFT
     else if xDir = 1 \<and> yDir = 1 then FORWARD_RIGHT
     else if xDir = - 1 \<and> yDir = - 1 then REVERSE_LEFT
     else if xDir = 1 \<and> yDir = - 1 then REVERSE_RIGHT
     else STOP)"

definition computeSpeed :: "int \<Rightarrow> int" where
  "computeSpeed y =
    (if y > 800 then max 0 (255 - (y - 801) * 255 div 222)
     else if y < 200 then max 0 (255 - (199 - y) * 255 div 199)
     else 255)"


text \<open>
  The buttons, as the specification words them: four active-low inputs on PD0..PD3, each
  bound to one utility command. \<open>pressed pind\<close> lists the pins whose button is active.
\<close>

definition pressed :: "u8 \<Rightarrow> nat list" where
  "pressed pind = filter (\<lambda>n. \<not> bit pind n) [PD0, PD1, PD2, PD3]"

definition utility :: "nat \<Rightarrow> command" where
  "utility n =
    (if n = PD0 then RESET_LIVES
     else if n = PD1 then TOGGLE_A
     else if n = PD2 then TOGGLE_B
     else TOGGLE_C)"

section \<open>Receiver (Receptor/main.c)\<close>

subsection \<open>State\<close>

text \<open>
  The four \<open>volatile\<close> globals, the locals of \<open>main\<close> that live across passes of the
  loop, and the I/O registers the program writes. The local \<open>velocidade_F_R\<close> is assigned
  in every pass before it is read, so it is a \<open>let\<close> of the pass and not a field.
  Timer 1 and the ADC are configured once and then act only as the source of ticks and
  of sensor readings; both are inputs of the model.
\<close>

record receptor =
  tempo_rotacao :: u8
  modo_penalidade :: u8
  contador_penalidade :: u8
  ldr_estado :: u8
  estado_rele :: u8
  vidas :: u8
  PORTC :: u8
  PORTD :: u8
  DDRC :: u8
  DDRD :: u8
  OCR0A :: u8
  OCR2B :: u8
  TCCR0A :: u8
  TCCR2A :: u8
  TCCR0B :: u8
  TCCR2B :: u8
  radio :: "(u8 \<times> u8) list"

text \<open>
  Modelled from the spec: the radio driver \<open>nrf24_avr\<close> is not among the sources. By the
  Radio Link contract (section 6: \<open>available() -> bool\<close>, \<open>read(buf, 2)\<close>) the field
  \<open>radio\<close> is the queue of received two-byte payloads not yet read, oldest first;
  \<open>nrf24_available\<close> tests it and \<open>nrf24_read\<close> takes its head. The loop calls
  \<open>nrf24_read\<close> only after \<open>nrf24_available\<close> answered true, so the head exists
  wherever it is taken.
\<close>

definition nrf24_available :: "receptor \<Rightarrow> bool" where
  "nrf24_available s = (radio s \<noteq> [])"

definition nrf24_read :: "receptor \<Rightarrow> (u8 \<times> u8) \<times> receptor" where
  "nrf24_read s = (hd (radio s), s\<lparr>radio := tl (radio s)\<rparr>)"

text \<open>Bit numbers of the timer control registers (\<open>avr/io.h\<close>, ATmega328P).\<close>

definition COM0A1 :: nat where [simp]: "COM0A1 = 7"
definition COM0A0 :: nat where [simp]: "COM0A0 = 6"
definition WGM01 :: nat where [simp]: "WGM01 = 1"
definition WGM00 :: nat where [simp]: "WGM00 = 0"
definition COM2B1 :: nat where [simp]: "COM2B1 = 5"
definition COM2B0 :: nat where [simp]: "COM2B0 = 4"
definition WGM21 :: nat where [simp]: "WGM21 = 1"
definition WGM20 :: nat where [simp]: "WGM20 = 0"
definition CS01 :: nat where [simp]: "CS01 = 1"
definition CS00 :: nat where [simp]: "CS00 = 0"
definition CS22 :: nat where [simp]: "CS22 = 2"

subsection \<open>Timer interrupt\<close>

text \<open>
  \<open>ISR(TIMER1_COMPA_vect)\<close>, run once per tick. The comparison \<open>>= 5\<close> is on the
  incremented byte.
\<close>

definition TIMER1_COMPA_vect :: "receptor \<Rightarrow> receptor" where
  "TIMER1_COMPA_vect s =
    (let s1 =
       (if modo_penalidade s = 1 then
          (let s' = s\<lparr>contador_penalidade := contador_penalidade s + 1\<rparr>
           in if contador_penalidade s' \<ge> 5
              then s'\<lparr>modo_penalidade := 0, contador_penalidade := 0,
                      PORTC := PORTC s' AND NOT (BIT PC1)\<rparr>
              else s')
        else s)
     in if modo_penalidade s1 = 0
        then s1\<lparr>PORTC := PORTC s1 XOR BIT PC1, tempo_rotacao := 1\<rparr>
        else s1\<lparr>PORTC := PORTC s1 AND NOT (BIT PC1)\<rparr>)"

subsection \<open>Motors\<close>

definition motor_desligado :: "receptor \<Rightarrow> receptor" where
  "motor_desligado s =
    s\<lparr>DDRD := DDRD s OR (BIT PD3 OR BIT PD6),
      OCR0A := 0,
      OCR2B := 0,
      TCCR0A := BIT COM0A1 OR BIT COM0A0 OR BIT WGM01 OR BIT WGM00,
      TCCR2A := BIT COM2B1 OR BIT COM2B0 OR BIT WGM21 OR BIT WGM20,
      TCCR0B := BIT CS01 OR BIT CS00,
      TCCR2B := BIT CS22\<rparr>"

definition motor_ligado :: "receptor \<Rightarrow> receptor" where
  "motor_ligado s =
    s\<lparr>DDRD := DDRD s OR (BIT PD3 OR BIT PD6),
      OCR0A := 255,
      OCR2B := 255,
      TCCR0A := BIT COM0A1 OR BIT COM0A0 OR BIT WGM01 OR BIT WGM00,
      TCCR2A := BIT COM2B1 OR BIT COM2B0 OR BIT WGM21 OR BIT WGM20,
      TCCR0B := BIT CS01 OR BIT CS00,
      TCCR2B := BIT CS22\<rparr>"

subsection \<open>Registering a hit\<close>

text \<open>
  The busy wait \<open>while (!tempo_rotacao);\<close> of \<open>vida\<close>. Only the timer interrupt can end
  it, so the wait is run against a schedule: one boolean per poll, telling whether the
  interrupt fired after that poll found the flag clear. A schedule that runs out with the
  flag still clear is a wait that has not returned: \<open>None\<close>.
\<close>

fun espera_tick :: "bool list \<Rightarrow> receptor \<Rightarrow> receptor option" where
  "espera_tick [] s = (if tempo_rotacao s \<noteq> 0 then Some s else None)"
| "espera_tick (t # ts) s =
    (if tempo_rotacao s \<noteq> 0 then Some s
     else espera_tick ts (if t then TIMER1_COMPA_vect s else s))"

definition vida :: "bool list \<Rightarrow> receptor \<Rightarrow> receptor option" where
  "vida sched s =
    (let s1 = s\<lparr>PORTD := PORTD s OR BIT PD0\<rparr>;
         s2 = motor_ligado s1;
         s3 = s2\<lparr>tempo_rotacao := 0\<rparr>
     in case espera_tick sched s3 of
          None \<Rightarrow> None
        | Some s4 \<Rightarrow>
            Some (s4\<lparr>tempo_rotacao := 0, modo_penalidade := 1, contador_penalidade := 0,
                     PORTC := PORTC s4 AND NOT (BIT PC1)\<rparr>))"

subsection \<open>The main loop\<close>

text \<open>The \<open>switch (cmd)\<close> of the loop, an if-chain in the order of its labels.\<close>

definition switch_cmd :: "u8 \<Rightarrow> u8 \<Rightarrow> receptor \<Rightarrow> receptor" where
  "switch_cmd cmd velocidade s =
    (let velocidade_F_R = 255 - velocidade
     in if cmd = 0xA1 then
          (if vidas s = 0
           then s\<lparr>vidas := 3,
                  PORTC := PORTC s XOR (BIT PC4 OR BIT PC3),
                  PORTD := PORTD s XOR BIT PD2\<rparr>
           else s)
        else if cmd = 0xA2 then s\<lparr>PORTC := PORTC s XOR BIT PC4\<rparr>
        else if cmd = 0xA3 then s\<lparr>PORTD := PORTD s XOR BIT PD0\<rparr>
        else if cmd = 0xA4 then s\<lparr>PORTD := PORTD s XOR BIT PD1\<rparr>
        else if cmd = 0xA5 then
          (if estado_rele s = 0
           then (let s1 = motor_ligado s;
                     s2 = s1\<lparr>PORTD := PORTD s1 AND NOT (BIT PD0 OR BIT PD1)\<rparr>
                 in s2\<lparr>OCR0A := velocidade_F_R, OCR2B := velocidade_F_R\<rparr>)
           else s)
        else if cmd = 0xA6 then
          (let s1 = motor_desligado s
           in s1\<lparr>PORTD := PORTD s1 AND NOT (BIT PD0 OR BIT PD1), estado_rele := 0\<rparr>)
        else if cmd = 0xA7 then
          (let s1 = s\<lparr>PORTD := PORTD s OR (BIT PD0 OR BIT PD1)\<rparr>;
               s2 = motor_ligado s1
           in s2\<lparr>estado_rele := 1, OCR0A := velocidade_F_R, OCR2B := velocidade_F_R\<rparr>)
        else if cmd = 0xA8 then (motor_ligado s)\<lparr>OCR0A := 0, OCR2B := velocidade\<rparr>
        else if cmd = 0xAA then (motor_ligado s)\<lparr>OCR0A := velocidade, OCR2B := 0\<rparr>
        else if cmd = 0xAB then
          (motor_ligado s)\<lparr>OCR0A := velocidade_F_R, OCR2B := drop_bit 1 velocidade\<rparr>
        else if cmd = 0xAC then
          (motor_ligado s)\<lparr>OCR0A := drop_bit 1 velocidade, OCR2B := velocidade_F_R\<rparr>
        else if cmd = 0xAD then
          (motor_ligado s)\<lparr>OCR0A := velocidade_F_R, OCR2B := drop_bit 1 velocidade\<rparr>
        else if cmd = 0xAE then
          (motor_ligado s)\<lparr>OCR0A := drop_bit 1 velocidade, OCR2B := velocidade_F_R\<rparr>
        else s)"

text \<open>The block \<open>if (nrf24_available()) { ... }\<close>: read one payload and dispatch it.\<close>

definition radio_block :: "receptor \<Rightarrow> receptor" where
  "radio_block s =
    (if nrf24_available s
     then (let (dados_recebidos, s1) = nrf24_read s;
               cmd = fst dados_recebidos;
               velocidade = snd dados_recebidos
           in switch_cmd cmd velocidade s1)
     else s)"

text \<open>The cascade on the sensor reading that closes each pass of the loop.\<close>

definition controle_vidas :: "u16 \<Rightarrow> bool list \<Rightarrow> receptor \<Rightarrow> receptor option" where
  "controle_vidas ldr_val sched s =
    (if ldr_val < 30 \<and> vidas s = 3 \<and> ldr_estado s = 0 then
       vida sched (s\<lparr>vidas := vidas s - 1,
                     PORTC := PORTC s AND NOT (BIT PC3),
                     ldr_estado := 1\<rparr>)
     else if ldr_val < 30 \<and> vidas s = 2 \<and> ldr_estado s = 0 then
       vida sched (s\<lparr>vidas := vidas s - 1,
                     PORTC := PORTC s AND NOT (BIT PC4),
                     ldr_estado := 1\<rparr>)
     else if ldr_val < 30 \<and> vidas s = 1 \<and> ldr_estado s = 0 then
       vida sched (s\<lparr>vidas := vidas s - 1,
                     PORTD := PORTD s AND NOT (BIT PD2),
                     ldr_estado := 1\<rparr>)
     else if ldr_val > 30 then Some (s\<lparr>ldr_estado := 0\<rparr>)
     else Some s)"

text \<open>
  One pass of \<open>while (1)\<close>. \<open>ldr_val\<close> is what \<open>valor_ldr(0)\<close> returns in this pass and
  \<open>sched\<close> the schedule of the busy wait, used only if a hit is registered. The pass is
  \<open>None\<close> when that wait does not return.
\<close>

definition main_loop :: "u16 \<Rightarrow> bool list \<Rightarrow> receptor \<Rightarrow> receptor option" where
  "main_loop ldr_val sched s =
    (if modo_penalidade s = 1 then Some (motor_desligado s)
     else controle_vidas ldr_val sched (radio_block s))"

subsection \<open>Runs\<close>

text \<open>
  The receiver's history is a sequence of events: a timer tick (the interrupt handler
  runs), a pass of the main loop, or the arrival of a payload at the radio. The interrupt
  is taken between passes, except inside the busy wait of \<open>vida\<close>, which has its own
  schedule.
\<close>

datatype event = Tick | Pass u16 "bool list" | Arrive u8 u8

fun run :: "event list \<Rightarrow> receptor \<Rightarrow> receptor option" where
  "run [] s = Some s"
| "run (Tick # es) s = run es (TIMER1_COMPA_vect s)"
| "run (Pass ldr_val sched # es) s =
    (case main_loop ldr_val sched s of None \<Rightarrow> None | Some s' \<Rightarrow> run es s')"
| "run (Arrive cmd velocidade # es) s = run es (s\<lparr>radio := radio s @ [(cmd, velocidade)]\<rparr>)"

fun ticks :: "event list \<Rightarrow> nat" where
  "ticks [] = 0"
| "ticks (Tick # es) = Suc (ticks es)"
| "ticks (e # es) = ticks es"

text \<open>The sensor readings of the passes of a run, in order.\<close>

fun readings :: "event list \<Rightarrow> u16 list" where
  "readings [] = []"
| "readings (Pass ldr_val sched # es) = ldr_val # readings es"
| "readings (e # es) = readings es"

text \<open>The payloads that arrive during a run, in order.\<close>

fun arrivals :: "event list \<Rightarrow> (u8 \<times> u8) list" where
  "arrivals [] = []"
| "arrivals (Arrive cmd velocidade # es) = (cmd, velocidade) # arrivals es"
| "arrivals (e # es) = arrivals es"

text \<open>
  The state \<open>main\<close> enters its loop with: every register cleared by reset, then
  \<open>liga_laser\<close>, \<open>motor_desligado\<close>, the status LEDs, \<open>estado_rele = 0\<close> and \<open>vidas = 3\<close>.
\<close>

definition reset_state :: receptor where
  "reset_state =
    \<lparr>tempo_rotacao = 0, modo_penalidade = 0, contador_penalidade = 0, ldr_estado = 0,
     estado_rele = 0, vidas = 0, PORTC = 0, PORTD = 0, DDRC = 0, DDRD = 0,
     OCR0A = 0, OCR2B = 0, TCCR0A = 0, TCCR2A = 0, TCCR0B = 0, TCCR2B = 0, radio = []\<rparr>"

definition main_init :: receptor where
  "main_init =
    (let s0 = reset_state;
         s1 = s0\<lparr>DDRC := DDRC s0 OR BIT PC1\<rparr>;
         s2 = s1\<lparr>PORTC := PORTC s1 AND NOT (BIT PC1)\<rparr>;
         s3 = motor_desligado s2;
         s4 = s3\<lparr>DDRC := DDRC s3 OR (BIT PC4 OR BIT PC3)\<rparr>;
         s5 = s4\<lparr>DDRD := DDRD s4 OR (BIT PD0 OR BIT PD1 OR BIT PD2)\<rparr>;
         s6 = s5\<lparr>PORTC := PORTC s5 XOR (BIT PC4 OR BIT PC3)\<rparr>;
         s7 = s6\<lparr>PORTD := PORTD s6 XOR BIT PD2\<rparr>
     in s7\<lparr>estado_rele := 0, vidas := 3\<rparr>)"


section \<open>The joystick encoder\<close>

subsection \<open>Axis table\<close>

text \<open>
  Claim C6. \<open>get_cmd\<close> is the 3 x 3 table of the specification: quantize each axis to
  -1 (raw < 200), +1 (raw > 800) or 0, look the pair up in \<open>mapAxesToCommand\<close> and send
  the command's wire code. It holds for every 16-bit pair, so in particular for every
  pair of readings in 0..1023.
\<close>

theorem get_cmd_table:
  "get_cmd x y = wire_code (mapAxesToCommand (quantizeAxis (uint x)) (quantizeAxis (uint y)))"
  by (simp add: get_cmd_def mapAxesToCommand_def quantizeAxis_def word_less_def)

subsection \<open>Speed byte\<close>

lemma hi_sub: "(800::u16) < y \<Longrightarrow> uint (y - 801) = uint y - 801"
  by uint_arith

lemma lo_sub: "y < (200::u16) \<Longrightarrow> uint (199 - y) = 199 - uint y"
  by uint_arith

lemma u8_of_clamped:
  "0 \<le> k \<Longrightarrow> uint (word_of_int (max 0 (255 - k)) :: u8) = max 0 (255 - k)"
  by (simp add: uint_word_of_int take_bit_int_eq_self max_def)

text \<open>The byte sent is the specification's clamped formula, for every 16-bit reading.\<close>

lemma velocidade_final_computeSpeed: "uint (velocidade_final y) = computeSpeed (uint y)"
proof -
  consider (hi) "800 < y" | (lo) "y < 200" | (mid) "\<not> 800 < y" "\<not> y < 200" by blast
  then show ?thesis
  proof cases
    case hi
    have k: "0 \<le> (uint y - 801) * 255 div 222" using hi by (simp add: word_less_def)
    have "velocidade_final y = word_of_int (max 0 (255 - (uint y - 801) * 255 div 222))"
      using hi by (simp add: velocidade_final_def Let_def hi_sub max_def)
    then show ?thesis using hi u8_of_clamped [OF k]
      by (simp add: computeSpeed_def word_less_def)
  next
    case lo
    have k: "0 \<le> (199 - uint y) * 255 div 199" using lo by (simp add: word_less_def)
    have n: "\<not> 800 < y" using lo by uint_arith
    have "velocidade_final y = word_of_int (max 0 (255 - (199 - uint y) * 255 div 199))"
      using lo n by (simp add: velocidade_final_def Let_def lo_sub max_def)
    then show ?thesis using lo n u8_of_clamped [OF k]
      by (simp add: computeSpeed_def word_less_def)
  next
    case mid
    then show ?thesis by (simp add: velocidade_final_def computeSpeed_def word_less_def)
  qed
qed

lemma computeSpeed_mono_hi: "800 < y1 \<Longrightarrow> y1 \<le> y2 \<Longrightarrow> computeSpeed y2 \<le> computeSpeed y1"
proof -
  assume a: "800 < y1" "y1 \<le> y2"
  have "(y1 - 801) * 255 div 222 \<le> (y2 - 801) * 255 div 222"
    using a by (intro zdiv_mono1) simp_all
  then show ?thesis using a by (simp add: computeSpeed_def max_def)
qed

lemma computeSpeed_mono_lo: "y1 < 200 \<Longrightarrow> y2 \<le> y1 \<Longrightarrow> computeSpeed y2 \<le> computeSpeed y1"
proof -
  assume a: "y1 < 200" "y2 \<le> y1"
  have "(199 - y1) * 255 div 199 \<le> (199 - y2) * 255 div 199"
    using a by (intro zdiv_mono1) simp_all
  then show ?thesis using a by (simp add: computeSpeed_def max_def)
qed

text \<open>On readings up to 1023 neither branch ever needs its clamp.\<close>

lemma computeSpeed_unclamped_hi:
  "800 < y \<Longrightarrow> y \<le> 1023 \<Longrightarrow> computeSpeed y = 255 - (y - 801) * 255 div 222"
proof -
  assume a: "800 < y" "y \<le> 1023"
  have "(y - 801) * 255 div 222 \<le> (1023 - 801) * 255 div 222"
    using a by (intro zdiv_mono1) simp_all
  then show ?thesis using a by (simp add: computeSpeed_def max_def)
qed

lemma computeSpeed_unclamped_lo:
  "y < 200 \<Longrightarrow> 0 \<le> y \<Longrightarrow> computeSpeed y = 255 - (199 - y) * 255 div 199"
proof -
  assume a: "y < 200" "0 \<le> y"
  have "(199 - y) * 255 div 199 \<le> (199 - 0) * 255 div 199"
    using a by (intro zdiv_mono1) simp_all
  then show ?thesis using a by (simp add: computeSpeed_def max_def)
qed

text \<open>
  Claim C7, as stated, orders the speed by the distance \<open>|y - 500|\<close> alone. The two sides
  of the neutral band have different slopes (divisors 199 and 222), so a reading on the
  high side can be farther from 500 than one on the low side and still give the larger
  speed: y = 150 is 350 away and sends 193, y = 851 is 351 away and sends 198.
\<close>

theorem speed_cross_side_counterexample:
  "\<bar>uint (150 :: u16) - 500\<bar> < \<bar>uint (851 :: u16) - 500\<bar>
   \<and> velocidade_final 150 = 193 \<and> velocidade_final 851 = 198
   \<and> \<not> velocidade_final 851 \<le> velocidade_final 150"
  by (simp add: velocidade_final_def)

text \<open>
  Claim C7, amended. For every reading y in 0..1023 the speed byte is the value of the
  clamped integer formula, which lies in 0..255; above 800 it is
  255 - (y - 801) * 255 / 222 and below 200 it is 255 - (199 - y) * 255 / 199, the clamp
  never being needed; it is 255 on the neutral band 200..800; it is 255 at 500 and 0 at
  1023 and at 0; and on each side of the band taken alone it does not increase as the
  reading moves away from the band.
\<close>

theorem velocidade_final_profile:
  fixes y y' :: u16
  assumes "y \<le> 1023"
  shows "uint (velocidade_final y) = computeSpeed (uint y)
    \<and> 0 \<le> computeSpeed (uint y) \<and> computeSpeed (uint y) \<le> 255
    \<and> (800 < y \<longrightarrow> uint (velocidade_final y) = 255 - (uint y - 801) * 255 div 222)
    \<and> (y < 200 \<longrightarrow> uint (velocidade_final y) = 255 - (199 - uint y) * 255 div 199)
    \<and> (200 \<le> y \<and> y \<le> 800 \<longrightarrow> velocidade_final y = 255)
    \<and> velocidade_final 500 = 255 \<and> velocidade_final 1023 = 0 \<and> velocidade_final 0 = 0
    \<and> (800 < y \<and> y \<le> y' \<longrightarrow> velocidade_final y' \<le> velocidade_final y)
    \<and> (y' \<le> y \<and> y < 200 \<longrightarrow> velocidade_final y' \<le> velocidade_final y)"
proof -
  have r: "0 \<le> computeSpeed (uint y) \<and> computeSpeed (uint y) \<le> 255"
    unfolding velocidade_final_computeSpeed [symmetric]
    using uint_lt2p [of "velocidade_final y"] by simp
  have y: "uint y \<le> 1023" using assms by (simp add: word_le_def)
  have hi: "800 < y \<longrightarrow> uint (velocidade_final y) = 255 - (uint y - 801) * 255 div 222"
    using y computeSpeed_unclamped_hi [of "uint y"]
    by (simp add: velocidade_final_computeSpeed word_less_def)
  have lo: "y < 200 \<longrightarrow> uint (velocidade_final y) = 255 - (199 - uint y) * 255 div 199"
    using computeSpeed_unclamped_lo [of "uint y"]
    by (simp add: velocidade_final_computeSpeed word_less_def)
  have mid: "200 \<le> y \<and> y \<le> 800 \<longrightarrow> velocidade_final y = 255"
    by (auto simp: velocidade_final_def)
  have pts: "velocidade_final 500 = 255 \<and> velocidade_final 1023 = 0 \<and> velocidade_final 0 = 0"
    by (simp add: velocidade_final_def)
  have mhi: "800 < y \<and> y \<le> y' \<longrightarrow> velocidade_final y' \<le> velocidade_final y"
    using computeSpeed_mono_hi [of "uint y" "uint y'"]
    by (simp add: word_le_def [of "velocidade_final y'"] velocidade_final_computeSpeed
        word_less_def word_le_def)
  have mlo: "y' \<le> y \<and> y < 200 \<longrightarrow> velocidade_final y' \<le> velocidade_final y"
    using computeSpeed_mono_lo [of "uint y" "uint y'"]
    by (simp add: word_le_def [of "velocidade_final y'"] velocidade_final_computeSpeed
        word_less_def word_le_def)
  show ?thesis using velocidade_final_computeSpeed r hi lo mid pts mhi mlo by blast
qed

theorem velocidade_final_profile_witness:
  "(900 :: u16) \<le> 1023 \<and> (800 :: u16) < 900 \<and> (900 :: u16) \<le> 1000
   \<and> uint (velocidade_final 900) = 255 - (900 - 801) * 255 div 222
   \<and> velocidade_final 900 = 142 \<and> velocidade_final 1000 \<le> velocidade_final 900
   \<and> (100 :: u16) \<le> 1023 \<and> (100 :: u16) < 200 \<and> (50 :: u16) \<le> 100
   \<and> uint (velocidade_final 100) = 255 - (199 - 100) * 255 div 199
   \<and> velocidade_final 50 \<le> velocidade_final 100
   \<and> (200 :: u16) \<le> 640 \<and> (640 :: u16) \<le> 800 \<and> velocidade_final 640 = 255"
  using velocidade_final_profile [of 900 1000] velocidade_final_profile [of 100 50]
    velocidade_final_profile [of 640 640]
  by (simp add: velocidade_final_def)

subsection \<open>Buttons\<close>

lemma low_nibble_eq_iff:
  fixes a b :: u8
  shows "a AND 0x0F = b AND 0x0F \<longleftrightarrow>
    (bit a 0 = bit b 0 \<and> bit a 1 = bit b 1 \<and> bit a 2 = bit b 2 \<and> bit a 3 = bit b 3)"
proof
  assume e: "a AND 0x0F = b AND 0x0F"
  have "bit (a AND 0x0F) n = bit (b AND 0x0F) n" for n using e by simp
  from this [of 0] this [of 1] this [of 2] this [of 3]
  show "bit a 0 = bit b 0 \<and> bit a 1 = bit b 1 \<and> bit a 2 = bit b 2 \<and> bit a 3 = bit b 3"
    by (simp add: bit_and_iff)
next
  assume h: "bit a 0 = bit b 0 \<and> bit a 1 = bit b 1 \<and> bit a 2 = bit b 2 \<and> bit a 3 = bit b 3"
  have m: "(0x0F :: u8) = mask 4" by (simp add: mask_eq_exp_minus_1)
  show "a AND 0x0F = b AND 0x0F"
    unfolding m
  proof (rule bit_word_eqI)
    fix n assume "n < LENGTH(8)"
    have "n < 4 \<Longrightarrow> n = 0 \<or> n = 1 \<or> n = 2 \<or> n = 3" by arith
    then show "bit (a AND mask 4) n = bit (b AND mask 4) n"
      using h by (auto simp: bit_and_iff bit_mask_iff)
  qed
qed

lemma sel_iff:
  fixes pind :: u8
  shows "(NOT pind) AND 0x0F = 1 \<longleftrightarrow> (\<not> bit pind 0 \<and> bit pind 1 \<and> bit pind 2 \<and> bit pind 3)"
    and "(NOT pind) AND 0x0F = 2 \<longleftrightarrow> (bit pind 0 \<and> \<not> bit pind 1 \<and> bit pind 2 \<and> bit pind 3)"
    and "(NOT pind) AND 0x0F = 4 \<longleftrightarrow> (bit pind 0 \<and> bit pind 1 \<and> \<not> bit pind 2 \<and> bit pind 3)"
    and "(NOT pind) AND 0x0F = 8 \<longleftrightarrow> (bit pind 0 \<and> bit pind 1 \<and> bit pind 2 \<and> \<not> bit pind 3)"
proof -
  have k: "(1 :: u8) = 1 AND 0x0F" "(2 :: u8) = 2 AND 0x0F" "(4 :: u8) = 4 AND 0x0F"
    "(8 :: u8) = 8 AND 0x0F"
    by simp_all
  show "(NOT pind) AND 0x0F = 1 \<longleftrightarrow> (\<not> bit pind 0 \<and> bit pind 1 \<and> bit pind 2 \<and> bit pind 3)"
    by (subst k(1), unfold low_nibble_eq_iff) (auto simp: bit_not_iff)
  show "(NOT pind) AND 0x0F = 2 \<longleftrightarrow> (bit pind 0 \<and> \<not> bit pind 1 \<and> bit pind 2 \<and> bit pind 3)"
    by (subst k(2), unfold low_nibble_eq_iff) (auto simp: bit_not_iff)
  show "(NOT pind) AND 0x0F = 4 \<longleftrightarrow> (bit pind 0 \<and> bit pind 1 \<and> \<not> bit pind 2 \<and> bit pind 3)"
    by (subst k(3), unfold low_nibble_eq_iff) (auto simp: bit_not_iff)
  show "(NOT pind) AND 0x0F = 8 \<longleftrightarrow> (bit pind 0 \<and> bit pind 1 \<and> bit pind 2 \<and> \<not> bit pind 3)"
    by (subst k(4), unfold low_nibble_eq_iff) (auto simp: bit_not_iff)
qed

text \<open>
  Claim C9, as stated, lets any active button override the joystick. The \<open>switch\<close> has
  a case for each single button only: with the buttons on PD0 and PD1 both held
  (\<open>PIND = 0xFC\<close>) the selector is 3, no case matches, and the default branch sends the
  joystick's command, here STOP for a centred stick.
\<close>

theorem two_buttons_counterexample:
  "\<not> bit (0xFC :: u8) PD0 \<and> \<not> bit (0xFC :: u8) PD1
   \<and> data_packet 0xFC 500 500 = (wire_code STOP, 255)
   \<and> get_cmd 500 500 = wire_code STOP"
  by (simp add: data_packet_def BIT_def get_cmd_def velocidade_final_def)

lemma command_byte:
  "fst (data_packet pind x y) =
    (if \<not> bit pind 0 \<and> bit pind 1 \<and> bit pind 2 \<and> bit pind 3 then 0xA1
     else if bit pind 0 \<and> \<not> bit pind 1 \<and> bit pind 2 \<and> bit pind 3 then 0xA2
     else if bit pind 0 \<and> bit pind 1 \<and> \<not> bit pind 2 \<and> bit pind 3 then 0xA3
     else if bit pind 0 \<and> bit pind 1 \<and> bit pind 2 \<and> \<not> bit pind 3 then 0xA4
     else get_cmd x y)"
  by (simp add: data_packet_def Let_def BIT_def sel_iff)

text \<open>
  Claim C9, amended. In every pass in which exactly one of the four buttons is active
  (its pin reads low), the command byte of the payload is that button's utility command
  (PD0 RESET_LIVES, PD1 TOGGLE_A, PD2 TOGGLE_B, PD3 TOGGLE_C) instead of the joystick's;
  when none or more than one is active it is the joystick's command. The pass keeps no
  state, so the override lasts for that payload only; the speed byte is always the one
  computed from the Y reading.
\<close>

theorem button_override:
  "(pressed pind = [n] \<longrightarrow> fst (data_packet pind x y) = wire_code (utility n))
   \<and> (length (pressed pind) \<noteq> 1 \<longrightarrow> fst (data_packet pind x y) = get_cmd x y)
   \<and> snd (data_packet pind x y) = velocidade_final y"
proof -
  have s: "snd (data_packet pind x y) = velocidade_final y"
    by (simp add: data_packet_def Let_def)
  have c: "(pressed pind = [n] \<longrightarrow> fst (data_packet pind x y) = wire_code (utility n))
   \<and> (length (pressed pind) \<noteq> 1 \<longrightarrow> fst (data_packet pind x y) = get_cmd x y)"
    unfolding command_byte
    by (cases "bit pind 0"; cases "bit pind 1"; cases "bit pind 2"; cases "bit pind 3")
       (auto simp: pressed_def utility_def)
  show ?thesis using s c by blast
qed

theorem button_override_witness:
  "pressed 0xFD = [PD1] \<and> data_packet 0xFD 100 900 = (wire_code TOGGLE_A, velocidade_final 900)
   \<and> length (pressed 0xFF) \<noteq> 1 \<and> fst (data_packet 0xFF 100 900) = wire_code FORWARD_LEFT
   \<and> length (pressed 0xF5) \<noteq> 1 \<and> fst (data_packet 0xF5 100 900) = wire_code FORWARD_LEFT"
  using button_override [of "0xFD" PD1 100 900] button_override [of "0xFF" 0 100 900]
    button_override [of "0xF5" 0 100 900]
  by (simp add: pressed_def utility_def get_cmd_def prod_eq_iff)

section \<open>The receiver\<close>

subsection \<open>Byte arithmetic\<close>

lemma unat_255_minus: "unat (255 - v :: u8) = 255 - unat v"
proof -
  have "unat v < 256" using unsigned_less [of v, where 'a = nat] by simp
  then have "v \<le> 255" by (simp add: word_le_nat_alt)
  then show ?thesis by (simp add: unat_sub)
qed

lemma unat_half: "unat (drop_bit 1 (v::u8)) = unat v div 2"
  by (simp add: drop_bit_eq_div unat_div)

subsection \<open>What each part of a pass leaves alone\<close>

lemma motor_desligado_keeps [simp]:
  "modo_penalidade (motor_desligado s) = modo_penalidade s"
  "contador_penalidade (motor_desligado s) = contador_penalidade s"
  "tempo_rotacao (motor_desligado s) = tempo_rotacao s"
  "ldr_estado (motor_desligado s) = ldr_estado s"
  "estado_rele (motor_desligado s) = estado_rele s"
  "vidas (motor_desligado s) = vidas s"
  "PORTC (motor_desligado s) = PORTC s"
  "PORTD (motor_desligado s) = PORTD s"
  "radio (motor_desligado s) = radio s"
  "OCR0A (motor_desligado s) = 0"
  "OCR2B (motor_desligado s) = 0"
  by (simp_all add: motor_desligado_def)

lemma motor_ligado_keeps [simp]:
  "modo_penalidade (motor_ligado s) = modo_penalidade s"
  "contador_penalidade (motor_ligado s) = contador_penalidade s"
  "tempo_rotacao (motor_ligado s) = tempo_rotacao s"
  "ldr_estado (motor_ligado s) = ldr_estado s"
  "estado_rele (motor_ligado s) = estado_rele s"
  "vidas (motor_ligado s) = vidas s"
  "PORTC (motor_ligado s) = PORTC s"
  "PORTD (motor_ligado s) = PORTD s"
  "radio (motor_ligado s) = radio s"
  "OCR0A (motor_ligado s) = 255"
  "OCR2B (motor_ligado s) = 255"
  by (simp_all add: motor_ligado_def)

lemma switch_cmd_keeps [simp]:
  "modo_penalidade (switch_cmd c v s) = modo_penalidade s"
  "contador_penalidade (switch_cmd c v s) = contador_penalidade s"
  "tempo_rotacao (switch_cmd c v s) = tempo_rotacao s"
  "ldr_estado (switch_cmd c v s) = ldr_estado s"
  "radio (switch_cmd c v s) = radio s"
  by (simp_all add: switch_cmd_def Let_def)

lemma switch_cmd_vidas:
  "vidas (switch_cmd c v s) = (if c = 0xA1 \<and> vidas s = 0 then 3 else vidas s)"
  by (simp add: switch_cmd_def Let_def)

lemma radio_block_keeps [simp]:
  "modo_penalidade (radio_block s) = modo_penalidade s"
  "contador_penalidade (radio_block s) = contador_penalidade s"
  "tempo_rotacao (radio_block s) = tempo_rotacao s"
  "ldr_estado (radio_block s) = ldr_estado s"
  "radio (radio_block s) = tl (radio s)"
  by (simp_all add: radio_block_def nrf24_available_def nrf24_read_def Let_def)

lemma radio_block_vidas:
  "vidas (radio_block s) =
    (if radio s \<noteq> [] \<and> fst (hd (radio s)) = 0xA1 \<and> vidas s = 0 then 3 else vidas s)"
  by (simp add: radio_block_def nrf24_available_def nrf24_read_def Let_def switch_cmd_vidas)

subsection \<open>The busy wait\<close>

lemma espera_tick_flag: "tempo_rotacao s \<noteq> 0 \<Longrightarrow> espera_tick sched s = Some s"
  by (cases sched) simp_all

lemma isr_normal:
  "modo_penalidade s = 0 \<Longrightarrow>
   TIMER1_COMPA_vect s = s\<lparr>PORTC := PORTC s XOR BIT PC1, tempo_rotacao := 1\<rparr>"
  by (simp add: TIMER1_COMPA_vect_def)

lemma espera_tick_returns:
  "modo_penalidade s = 0 \<Longrightarrow> tempo_rotacao s = 0 \<Longrightarrow> True \<in> set sched \<Longrightarrow>
   espera_tick sched s = Some (TIMER1_COMPA_vect s)"
proof (induction sched)
  case Nil
  then show ?case by simp
next
  case (Cons t ts)
  show ?case
  proof (cases t)
    case True
    have "tempo_rotacao (TIMER1_COMPA_vect s) \<noteq> 0"
      using Cons.prems(1) by (simp add: isr_normal)
    then show ?thesis using True Cons.prems(2) by (simp add: espera_tick_flag)
  next
    case False
    then have "True \<in> set ts" using Cons.prems(3) by simp
    then show ?thesis using False Cons by simp
  qed
qed

lemma espera_tick_never:
  "tempo_rotacao s = 0 \<Longrightarrow> True \<notin> set sched \<Longrightarrow> espera_tick sched s = None"
  by (induction sched) auto

lemma vida_returns:
  assumes "modo_penalidade s = 0" "True \<in> set sched"
  shows "vida sched s =
    Some ((motor_ligado (s\<lparr>PORTD := PORTD s OR BIT PD0\<rparr>))
           \<lparr>tempo_rotacao := 0, modo_penalidade := 1, contador_penalidade := 0,
            PORTC := (PORTC s XOR BIT PC1) AND NOT (BIT PC1)\<rparr>)"
proof -
  let ?s3 = "(motor_ligado (s\<lparr>PORTD := PORTD s OR BIT PD0\<rparr>))\<lparr>tempo_rotacao := 0\<rparr>"
  have "espera_tick sched ?s3 = Some (TIMER1_COMPA_vect ?s3)"
    using assms by (intro espera_tick_returns) simp_all
  moreover have "modo_penalidade ?s3 = 0" using assms by simp
  ultimately show ?thesis
    by (simp add: vida_def Let_def isr_normal motor_ligado_def)
qed

lemma controle_vidas_hit:
  assumes "modo_penalidade s = 0" "ldr_estado s = 0" "ldr_val < 30"
    "vidas s = 1 \<or> vidas s = 2 \<or> vidas s = 3" "True \<in> set sched"
  shows "\<exists>s'. controle_vidas ldr_val sched s = Some s' \<and> vidas s' = vidas s - 1
    \<and> modo_penalidade s' = 1 \<and> contador_penalidade s' = 0 \<and> ldr_estado s' = 1
    \<and> \<not> bit (PORTC s') PC1 \<and> radio s' = radio s \<and> estado_rele s' = estado_rele s
    \<and> OCR0A s' = 255 \<and> OCR2B s' = 255"
  using assms
  by (auto simp: controle_vidas_def vida_returns BIT_def bit_and_iff bit_not_iff)

subsection \<open>Ticks during a penalty\<close>

lemma isr_keeps [simp]:
  "vidas (TIMER1_COMPA_vect s) = vidas s"
  "ldr_estado (TIMER1_COMPA_vect s) = ldr_estado s"
  "estado_rele (TIMER1_COMPA_vect s) = estado_rele s"
  "radio (TIMER1_COMPA_vect s) = radio s"
  "PORTD (TIMER1_COMPA_vect s) = PORTD s"
  "OCR0A (TIMER1_COMPA_vect s) = OCR0A s"
  "OCR2B (TIMER1_COMPA_vect s) = OCR2B s"
  by (simp_all add: TIMER1_COMPA_vect_def Let_def)

lemma counter_step:
  fixes c :: u8
  assumes "unat c < 5"
  shows "unat (c + 1) = Suc (unat c)"
  using assms by (simp add: unat_word_ariths)

lemma counter_below_5:
  fixes c :: u8
  assumes "unat c < 4"
  shows "\<not> 5 \<le> c + 1" "unat (c + 1) = Suc (unat c)"
  using assms counter_step [of c] by (simp_all add: word_le_nat_alt)

lemma counter_reaches_5:
  fixes c :: u8
  assumes "unat c = 4"
  shows "5 \<le> c + 1"
  using assms counter_step [of c] by (simp add: word_le_nat_alt)

lemma isr_penalty_stays:
  assumes "modo_penalidade s = 1" "unat (contador_penalidade s) < 4"
  shows "TIMER1_COMPA_vect s =
    s\<lparr>contador_penalidade := contador_penalidade s + 1, PORTC := PORTC s AND NOT (BIT PC1)\<rparr>"
  using assms counter_below_5(1) [of "contador_penalidade s"]
  by (simp add: TIMER1_COMPA_vect_def Let_def)

lemma isr_penalty_ends:
  assumes "modo_penalidade s = 1" "unat (contador_penalidade s) = 4"
  shows "TIMER1_COMPA_vect s =
    s\<lparr>modo_penalidade := 0, contador_penalidade := 0,
      PORTC := (PORTC s AND NOT (BIT PC1)) XOR BIT PC1, tempo_rotacao := 1\<rparr>"
  using assms counter_reaches_5 [of "contador_penalidade s"]
  by (simp add: TIMER1_COMPA_vect_def Let_def)

lemma run_append:
  "run (es @ es') s = (case run es s of None \<Rightarrow> None | Some s' \<Rightarrow> run es' s')"
proof (induction es arbitrary: s)
  case Nil
  then show ?case by simp
next
  case (Cons e es)
  then show ?case by (cases e) (simp_all split: option.splits)
qed

lemma penalty_window:
  assumes "modo_penalidade s = 1" "unat (contador_penalidade s) + ticks es < 5"
  shows "\<exists>s'. run es s = Some s' \<and> modo_penalidade s' = 1
    \<and> unat (contador_penalidade s') = unat (contador_penalidade s) + ticks es
    \<and> radio s' = radio s @ arrivals es
    \<and> vidas s' = vidas s \<and> ldr_estado s' = ldr_estado s \<and> estado_rele s' = estado_rele s
    \<and> PORTD s' = PORTD s
    \<and> (bit (PORTC s') PC1 \<longrightarrow> bit (PORTC s) PC1 \<and> ticks es = 0)"
  using assms
proof (induction es arbitrary: s)
  case Nil
  then show ?case by simp
next
  case (Cons e es)
  show ?case
  proof (cases e)
    case Tick
    let ?t = "TIMER1_COMPA_vect s"
    have c: "unat (contador_penalidade s) < 4" using Cons.prems(2) Tick by simp
    have t: "?t = s\<lparr>contador_penalidade := contador_penalidade s + 1,
        PORTC := PORTC s AND NOT (BIT PC1)\<rparr>"
      using Cons.prems(1) c by (rule isr_penalty_stays)
    have m: "modo_penalidade ?t = 1" using t Cons.prems(1) by simp
    have k: "unat (contador_penalidade ?t) = Suc (unat (contador_penalidade s))"
      using t counter_below_5(2) [OF c] by simp
    have "unat (contador_penalidade ?t) + ticks es < 5" using k Cons.prems(2) Tick by simp
    from Cons.IH [OF m this] obtain s' where
      s': "run es ?t = Some s'" "modo_penalidade s' = 1"
        "unat (contador_penalidade s') = unat (contador_penalidade ?t) + ticks es"
        "radio s' = radio ?t @ arrivals es" "vidas s' = vidas ?t"
        "ldr_estado s' = ldr_estado ?t" "estado_rele s' = estado_rele ?t"
        "PORTD s' = PORTD ?t"
        "bit (PORTC s') PC1 \<longrightarrow> bit (PORTC ?t) PC1 \<and> ticks es = 0"
      by blast
    have off: "\<not> bit (PORTC ?t) PC1"
      by (subst t) (simp add: BIT_def bit_and_iff bit_not_iff)
    show ?thesis using s' k off Tick by simp
  next
    case (Pass ldr_val sched)
    let ?t = "motor_desligado s"
    have p: "main_loop ldr_val sched s = Some ?t" using Cons.prems(1) by (simp add: main_loop_def)
    have m: "modo_penalidade ?t = 1" using Cons.prems(1) by simp
    have "unat (contador_penalidade ?t) + ticks es < 5" using Cons.prems(2) Pass by simp
    from Cons.IH [OF m this] obtain s' where
      s': "run es ?t = Some s'" "modo_penalidade s' = 1"
        "unat (contador_penalidade s') = unat (contador_penalidade ?t) + ticks es"
        "radio s' = radio ?t @ arrivals es" "vidas s' = vidas ?t"
        "ldr_estado s' = ldr_estado ?t" "estado_rele s' = estado_rele ?t"
        "PORTD s' = PORTD ?t"
        "bit (PORTC s') PC1 \<longrightarrow> bit (PORTC ?t) PC1 \<and> ticks es = 0"
      by blast
    show ?thesis using s' p Pass by simp
  next
    case (Arrive cmd velocidade)
    let ?t = "s\<lparr>radio := radio s @ [(cmd, velocidade)]\<rparr>"
    have m: "modo_penalidade ?t = 1" using Cons.prems(1) by simp
    have "unat (contador_penalidade ?t) + ticks es < 5" using Cons.prems(2) Arrive by simp
    from Cons.IH [OF m this] obtain s' where
      s': "run es ?t = Some s'" "modo_penalidade s' = 1"
        "unat (contador_penalidade s') = unat (contador_penalidade ?t) + ticks es"
        "radio s' = radio ?t @ arrivals es" "vidas s' = vidas ?t"
        "ldr_estado s' = ldr_estado ?t" "estado_rele s' = estado_rele ?t"
        "PORTD s' = PORTD ?t"
        "bit (PORTC s') PC1 \<longrightarrow> bit (PORTC ?t) PC1 \<and> ticks es = 0"
      by blast
    show ?thesis using s' Arrive by simp
  qed
qed

subsection \<open>Dispatch\<close>

text \<open>
  Claim C1, as stated, has FORWARD write the speed byte itself to both wheels. The code
  writes \<open>velocidade_F_R = 255 - velocidade\<close>, the value it also uses for REVERSE: a pass
  that is not penalized, finds Packet{FORWARD, 200} and reads a sensor value of 512 sets
  both compare registers to 55, not 200 (and sets the flag).
\<close>

theorem forward_duty_counterexample:
  "modo_penalidade main_init = 0 \<and> estado_rele main_init = 0
   \<and> main_loop 512 [] (main_init\<lparr>radio := [(wire_code FORWARD, 200)]\<rparr>)
       = Some (switch_cmd (wire_code FORWARD) 200 main_init)
   \<and> OCR0A (switch_cmd (wire_code FORWARD) 200 main_init) = 55
   \<and> OCR2B (switch_cmd (wire_code FORWARD) 200 main_init) = 55
   \<and> OCR0A (switch_cmd (wire_code FORWARD) 200 main_init) \<noteq> 200
   \<and> OCR2B (switch_cmd (wire_code FORWARD) 200 main_init) \<noteq> 200
   \<and> estado_rele (switch_cmd (wire_code FORWARD) 200 main_init) = 1"
  by (simp add: main_loop_def main_init_def reset_state_def radio_block_def
      nrf24_available_def nrf24_read_def controle_vidas_def Let_def switch_cmd_def
      motor_ligado_def motor_desligado_def BIT_def)

lemma not_below_30: "(30 :: u16) \<le> l \<Longrightarrow> \<not> l < 30"
  by (simp add: word_le_nat_alt word_less_nat_alt)

lemma above_30: "(30 :: u16) < l \<Longrightarrow> \<not> l < 30"
  by (simp add: word_less_nat_alt)

lemma controle_vidas_no_hit:
  "\<not> ldr_val < 30 \<Longrightarrow>
   controle_vidas ldr_val sched s = Some (if ldr_val > 30 then s\<lparr>ldr_estado := 0\<rparr> else s)"
  by (simp add: controle_vidas_def)

text \<open>
  Claim C1, amended. For every Packet received while not penalized whose command is
  FORWARD with speed byte s, the dispatcher sets the direction outputs PD0 and PD1,
  engages the motors (the timer configuration of \<open>motor_ligado\<close>), writes the duty
  255 - s to both wheels and sets the "currently forward" flag; the pass then goes on
  to the life cascade, and when the sensor reads 30 or more these values are what the
  pass leaves. In particular Packet{FORWARD, 200} yields duty 55 on both wheels.
\<close>

theorem forward_dispatch:
  assumes "modo_penalidade s \<noteq> 1" "radio s = (wire_code FORWARD, v) # q"
  shows "OCR0A (radio_block s) = 255 - v \<and> OCR2B (radio_block s) = 255 - v
    \<and> unat (OCR0A (radio_block s)) = 255 - unat v
    \<and> estado_rele (radio_block s) = 1
    \<and> bit (PORTD (radio_block s)) PD0 \<and> bit (PORTD (radio_block s)) PD1
    \<and> TCCR0A (radio_block s) = TCCR0A (motor_ligado s)
    \<and> TCCR2A (radio_block s) = TCCR2A (motor_ligado s)
    \<and> TCCR0B (radio_block s) = TCCR0B (motor_ligado s)
    \<and> TCCR2B (radio_block s) = TCCR2B (motor_ligado s)
    \<and> DDRD (radio_block s) = DDRD (motor_ligado s)
    \<and> radio (radio_block s) = q
    \<and> main_loop ldr_val sched s = controle_vidas ldr_val sched (radio_block s)
    \<and> (30 \<le> ldr_val \<longrightarrow>
         (\<exists>s'. main_loop ldr_val sched s = Some s' \<and> OCR0A s' = 255 - v \<and> OCR2B s' = 255 - v
           \<and> estado_rele s' = 1 \<and> bit (PORTD s') PD0 \<and> bit (PORTD s') PD1))"
proof -
  have rb: "radio_block s = switch_cmd 0xA7 v (s\<lparr>radio := q\<rparr>)"
    using assms(2) by (simp add: radio_block_def nrf24_available_def nrf24_read_def)
  have a: "OCR0A (radio_block s) = 255 - v \<and> OCR2B (radio_block s) = 255 - v
    \<and> estado_rele (radio_block s) = 1
    \<and> bit (PORTD (radio_block s)) PD0 \<and> bit (PORTD (radio_block s)) PD1
    \<and> TCCR0A (radio_block s) = TCCR0A (motor_ligado s)
    \<and> TCCR2A (radio_block s) = TCCR2A (motor_ligado s)
    \<and> TCCR0B (radio_block s) = TCCR0B (motor_ligado s)
    \<and> TCCR2B (radio_block s) = TCCR2B (motor_ligado s)
    \<and> DDRD (radio_block s) = DDRD (motor_ligado s)
    \<and> radio (radio_block s) = q"
    unfolding rb by (simp add: switch_cmd_def motor_ligado_def Let_def BIT_def bit_or_iff)
  have u: "unat (OCR0A (radio_block s)) = 255 - unat v"
    using a by (simp add: unat_255_minus)
  have m: "main_loop ldr_val sched s = controle_vidas ldr_val sched (radio_block s)"
    using assms(1) by (simp add: main_loop_def)
  have n: "30 \<le> ldr_val \<longrightarrow>
         (\<exists>s'. main_loop ldr_val sched s = Some s' \<and> OCR0A s' = 255 - v \<and> OCR2B s' = 255 - v
           \<and> estado_rele s' = 1 \<and> bit (PORTD s') PD0 \<and> bit (PORTD s') PD1)"
    using a by (auto simp: m controle_vidas_no_hit not_below_30)
  show ?thesis using a u m n by blast
qed

theorem forward_dispatch_witness:
  "modo_penalidade main_init \<noteq> 1
   \<and> radio (main_init\<lparr>radio := [(wire_code FORWARD, 200)]\<rparr>) = [(wire_code FORWARD, 200)]
   \<and> OCR0A (radio_block (main_init\<lparr>radio := [(wire_code FORWARD, 200)]\<rparr>)) = 55
   \<and> OCR2B (radio_block (main_init\<lparr>radio := [(wire_code FORWARD, 200)]\<rparr>)) = 55
   \<and> estado_rele (radio_block (main_init\<lparr>radio := [(wire_code FORWARD, 200)]\<rparr>)) = 1
   \<and> (30 :: u16) \<le> 512"
  using forward_dispatch [of "main_init\<lparr>radio := [(wire_code FORWARD, 200)]\<rparr>" 200 "[]" 512 "[]"]
  by (simp add: main_init_def reset_state_def motor_desligado_def Let_def)

subsection \<open>Penalty\<close>

text \<open>
  Claim C2, as stated, has the radio polled and drained during a penalty. The penalty
  branch is \<open>motor_desligado(); continue;\<close>: the pass ends before \<open>nrf24_available\<close>
  is called. A penalized pass with Packet{FORWARD, 200} waiting leaves it waiting.
\<close>

theorem penalty_no_drain_counterexample:
  "modo_penalidade (main_init\<lparr>modo_penalidade := 1, radio := [(wire_code FORWARD, 200)]\<rparr>) = 1
   \<and> nrf24_available (main_init\<lparr>modo_penalidade := 1, radio := [(wire_code FORWARD, 200)]\<rparr>)
   \<and> main_loop 512 [] (main_init\<lparr>modo_penalidade := 1, radio := [(wire_code FORWARD, 200)]\<rparr>)
       = Some (motor_desligado
                (main_init\<lparr>modo_penalidade := 1, radio := [(wire_code FORWARD, 200)]\<rparr>))
   \<and> radio (motor_desligado
               (main_init\<lparr>modo_penalidade := 1, radio := [(wire_code FORWARD, 200)]\<rparr>))
       = [(wire_code FORWARD, 200)]"
  by (simp add: main_loop_def nrf24_available_def)

text \<open>
  Claim C2, amended. In every pass of the main loop executed while the penalty is
  active, the motors are forced disengaged (both duties 0) and the pass ends there: the
  radio is not polled and no payload is read or discarded, whatever is waiting. The
  pass leaves the queue of waiting payloads, and with it the answer of
  \<open>nrf24_available\<close>, as it found them.
\<close>

theorem penalty_pass:
  assumes "modo_penalidade s = 1"
  shows "main_loop ldr_val sched s = Some (motor_desligado s)
    \<and> OCR0A (motor_desligado s) = 0 \<and> OCR2B (motor_desligado s) = 0
    \<and> modo_penalidade (motor_desligado s) = 1
    \<and> radio (motor_desligado s) = radio s
    \<and> nrf24_available (motor_desligado s) = nrf24_available s
    \<and> main_loop ldr_val sched (s\<lparr>radio := q\<rparr>) = Some ((motor_desligado s)\<lparr>radio := q\<rparr>)"
proof -
  have a: "main_loop ldr_val sched s = Some (motor_desligado s)"
    using assms by (simp add: main_loop_def)
  have b: "main_loop ldr_val sched (s\<lparr>radio := q\<rparr>) = Some ((motor_desligado s)\<lparr>radio := q\<rparr>)"
    using assms by (simp add: main_loop_def motor_desligado_def)
  show ?thesis using a b assms by (simp add: nrf24_available_def)
qed

theorem penalty_pass_witness:
  "modo_penalidade (main_init\<lparr>modo_penalidade := 1, radio := [(wire_code STOP, 255)]\<rparr>) = 1
   \<and> main_loop 512 []
        (main_init\<lparr>modo_penalidade := 1, radio := [(wire_code STOP, 255)]\<rparr>)
       = Some (motor_desligado
                (main_init\<lparr>modo_penalidade := 1, radio := [(wire_code STOP, 255)]\<rparr>))
   \<and> radio (motor_desligado
               (main_init\<lparr>modo_penalidade := 1, radio := [(wire_code STOP, 255)]\<rparr>))
       = [(wire_code STOP, 255)]
   \<and> nrf24_available (motor_desligado
               (main_init\<lparr>modo_penalidade := 1, radio := [(wire_code STOP, 255)]\<rparr>))
   \<and> OCR0A (motor_desligado
               (main_init\<lparr>modo_penalidade := 1, radio := [(wire_code STOP, 255)]\<rparr>)) = 0"
  using penalty_pass
    [of "main_init\<lparr>modo_penalidade := 1, radio := [(wire_code STOP, 255)]\<rparr>" 512 "[]" "[]"]
  by (simp add: nrf24_available_def)

text \<open>
  Claim C4. From a state that has just entered the penalty (flag 1, counter 0, laser
  off, as \<open>vida\<close> leaves it), after any interleaving of passes, arrivals and fewer than
  5 ticks the state is still penalized, the counter equals the number of ticks, and the
  laser bit reads off. A pass there returns \<open>motor_desligado\<close> of the state whatever the
  sensor reads and whatever payloads wait: duties 0, direction outputs and forward flag
  as on entry, queue untouched. If 4 ticks have passed, the next one, the fifth, returns
  the state to normal with the counter reset.
\<close>

theorem penalty_timing:
  assumes "modo_penalidade s = 1" "contador_penalidade s = 0" "\<not> bit (PORTC s) PC1"
    "ticks es < 5"
  shows "\<exists>s'. run es s = Some s' \<and> modo_penalidade s' = 1
    \<and> unat (contador_penalidade s') = ticks es
    \<and> \<not> bit (PORTC s') PC1
    \<and> radio s' = radio s @ arrivals es
    \<and> PORTD s' = PORTD s \<and> estado_rele s' = estado_rele s
    \<and> (\<forall>ldr_val sched. main_loop ldr_val sched s' = Some (motor_desligado s'))
    \<and> OCR0A (motor_desligado s') = 0 \<and> OCR2B (motor_desligado s') = 0
    \<and> PORTD (motor_desligado s') = PORTD s
    \<and> estado_rele (motor_desligado s') = estado_rele s
    \<and> radio (motor_desligado s') = radio s'
    \<and> (ticks es = 4 \<longrightarrow>
         (\<exists>s''. run (es @ [Tick]) s = Some s'' \<and> modo_penalidade s'' = 0
            \<and> contador_penalidade s'' = 0))"
proof -
  have "unat (contador_penalidade s) + ticks es < 5" using assms(2,4) by simp
  from penalty_window [OF assms(1) this] obtain s' where
    s': "run es s = Some s'" "modo_penalidade s' = 1"
      "unat (contador_penalidade s') = unat (contador_penalidade s) + ticks es"
      "radio s' = radio s @ arrivals es" "estado_rele s' = estado_rele s"
      "PORTD s' = PORTD s"
      "bit (PORTC s') PC1 \<longrightarrow> bit (PORTC s) PC1 \<and> ticks es = 0"
    by blast
  have c: "unat (contador_penalidade s') = ticks es" using s'(3) assms(2) by simp
  have l: "\<not> bit (PORTC s') PC1" using s'(7) assms(3) by blast
  have p: "\<forall>ldr_val sched. main_loop ldr_val sched s' = Some (motor_desligado s')"
    using s'(2) by (simp add: main_loop_def)
  have e: "ticks es = 4 \<longrightarrow>
         (\<exists>s''. run (es @ [Tick]) s = Some s'' \<and> modo_penalidade s'' = 0
            \<and> contador_penalidade s'' = 0)"
  proof
    assume "ticks es = 4"
    then have "unat (contador_penalidade s') = 4" using c by simp
    from isr_penalty_ends [OF s'(2) this]
    show "\<exists>s''. run (es @ [Tick]) s = Some s'' \<and> modo_penalidade s'' = 0
            \<and> contador_penalidade s'' = 0"
      using s'(1) by (simp add: run_append)
  qed
  show ?thesis using s'(1,2,4,5,6) c l p e by simp
qed

theorem penalty_timing_witness:
  "modo_penalidade (the (main_loop 10 [False, True] main_init)) = 1
   \<and> contador_penalidade (the (main_loop 10 [False, True] main_init)) = 0
   \<and> \<not> bit (PORTC (the (main_loop 10 [False, True] main_init))) PC1
   \<and> ticks [Pass 512 [], Tick, Arrive 0xA7 200, Tick, Pass 5 [], Tick, Tick] < 5
   \<and> ticks [Pass 512 [], Tick, Arrive 0xA7 200, Tick, Pass 5 [], Tick, Tick] = 4
   \<and> (\<exists>s'. run [Pass 512 [], Tick, Arrive 0xA7 200, Tick, Pass 5 [], Tick, Tick]
              (the (main_loop 10 [False, True] main_init)) = Some s'
          \<and> modo_penalidade s' = 1 \<and> unat (contador_penalidade s') = 4
          \<and> \<not> bit (PORTC s') PC1 \<and> radio s' = [(0xA7, 200)]
          \<and> OCR0A (motor_desligado s') = 0)
   \<and> (\<exists>s''. run ([Pass 512 [], Tick, Arrive 0xA7 200, Tick, Pass 5 [], Tick, Tick] @ [Tick])
              (the (main_loop 10 [False, True] main_init)) = Some s''
          \<and> modo_penalidade s'' = 0 \<and> contador_penalidade s'' = 0)"
proof -
  have h: "main_loop 10 [False, True] main_init =
    Some ((motor_ligado (main_init\<lparr>vidas := 2, PORTC := PORTC main_init AND NOT (BIT PC3),
            ldr_estado := 1, PORTD := PORTD main_init OR BIT PD0\<rparr>))
           \<lparr>tempo_rotacao := 0, modo_penalidade := 1, contador_penalidade := 0,
            PORTC := ((PORTC main_init AND NOT (BIT PC3)) XOR BIT PC1) AND NOT (BIT PC1)\<rparr>)"
    by (simp add: main_loop_def radio_block_def nrf24_available_def controle_vidas_def
        vida_returns main_init_def reset_state_def Let_def)
  have a: "modo_penalidade (the (main_loop 10 [False, True] main_init)) = 1"
    and b: "contador_penalidade (the (main_loop 10 [False, True] main_init)) = 0"
    and c: "\<not> bit (PORTC (the (main_loop 10 [False, True] main_init))) PC1"
    and r: "radio (the (main_loop 10 [False, True] main_init)) = []"
    unfolding h option.sel
    by (simp_all add: BIT_def bit_and_iff bit_not_iff main_init_def reset_state_def Let_def)
  have d: "ticks [Pass 512 [], Tick, Arrive 0xA7 200, Tick, Pass 5 [], Tick, Tick] < 5"
    by simp
  show ?thesis
    using penalty_timing [OF a b c d] a b c r by auto
qed

subsection \<open>Diagonal commands\<close>

text \<open>
  Claim C8, as stated, gives the forward diagonals the speed byte s as the full value.
  All four diagonal cases write \<open>velocidade_F_R = 255 - velocidade\<close> to the full wheel:
  Packet{FORWARD_LEFT, 200} sets the compare registers to 55 and 100, and neither wheel
  gets 200.
\<close>

theorem diagonal_full_value_counterexample:
  "modo_penalidade main_init = 0
   \<and> main_loop 512 [] (main_init\<lparr>radio := [(wire_code FORWARD_LEFT, 200)]\<rparr>)
       = Some (switch_cmd (wire_code FORWARD_LEFT) 200 main_init)
   \<and> OCR0A (switch_cmd (wire_code FORWARD_LEFT) 200 main_init) = 55
   \<and> OCR2B (switch_cmd (wire_code FORWARD_LEFT) 200 main_init) = 100
   \<and> OCR0A (switch_cmd (wire_code FORWARD_LEFT) 200 main_init) \<noteq> 200
   \<and> OCR2B (switch_cmd (wire_code FORWARD_LEFT) 200 main_init) \<noteq> 200"
  by (simp add: main_loop_def main_init_def reset_state_def radio_block_def
      nrf24_available_def nrf24_read_def controle_vidas_def Let_def switch_cmd_def
      motor_ligado_def motor_desligado_def BIT_def drop_bit_eq_div)

text \<open>
  Claim C8, amended. For every Packet with a diagonal command and speed byte s received
  while not penalized, one wheel is set to half the speed byte (s / 2, rounded down) and
  the other to 255 - s, in the forward and the reverse variants alike: the left variants
  halve OCR2B and write 255 - s to OCR0A, the right variants halve OCR0A and write
  255 - s to OCR2B.
\<close>

theorem diagonal_dispatch:
  assumes "modo_penalidade s \<noteq> 1" "radio s = (c, v) # q"
  shows "(c = wire_code FORWARD_LEFT \<or> c = wire_code REVERSE_LEFT \<longrightarrow>
            OCR0A (radio_block s) = 255 - v \<and> OCR2B (radio_block s) = drop_bit 1 v)
    \<and> (c = wire_code FORWARD_RIGHT \<or> c = wire_code REVERSE_RIGHT \<longrightarrow>
            OCR0A (radio_block s) = drop_bit 1 v \<and> OCR2B (radio_block s) = 255 - v)
    \<and> unat (drop_bit 1 v) = unat v div 2 \<and> unat (255 - v) = 255 - unat v
    \<and> radio (radio_block s) = q
    \<and> main_loop ldr_val sched s = controle_vidas ldr_val sched (radio_block s)"
proof -
  have rb: "radio_block s = switch_cmd c v (s\<lparr>radio := q\<rparr>)"
    using assms(2) by (simp add: radio_block_def nrf24_available_def nrf24_read_def)
  have l: "c = wire_code FORWARD_LEFT \<or> c = wire_code REVERSE_LEFT \<longrightarrow>
            OCR0A (radio_block s) = 255 - v \<and> OCR2B (radio_block s) = drop_bit 1 v"
    unfolding rb by (auto simp: switch_cmd_def Let_def)
  have r: "c = wire_code FORWARD_RIGHT \<or> c = wire_code REVERSE_RIGHT \<longrightarrow>
            OCR0A (radio_block s) = drop_bit 1 v \<and> OCR2B (radio_block s) = 255 - v"
    unfolding rb by (auto simp: switch_cmd_def Let_def)
  have q: "radio (radio_block s) = q" using assms(2) by simp
  have m: "main_loop ldr_val sched s = controle_vidas ldr_val sched (radio_block s)"
    using assms(1) by (simp add: main_loop_def)
  show ?thesis using l r q m unat_half [of v] unat_255_minus [of v] by blast
qed

theorem diagonal_dispatch_witness:
  "modo_penalidade main_init \<noteq> 1
   \<and> radio (main_init\<lparr>radio := [(wire_code FORWARD_LEFT, 200)]\<rparr>) = [(wire_code FORWARD_LEFT, 200)]
   \<and> OCR0A (radio_block (main_init\<lparr>radio := [(wire_code FORWARD_LEFT, 200)]\<rparr>)) = 55
   \<and> OCR2B (radio_block (main_init\<lparr>radio := [(wire_code FORWARD_LEFT, 200)]\<rparr>)) = 100
   \<and> radio (main_init\<lparr>radio := [(wire_code REVERSE_RIGHT, 200)]\<rparr>) = [(wire_code REVERSE_RIGHT, 200)]
   \<and> OCR0A (radio_block (main_init\<lparr>radio := [(wire_code REVERSE_RIGHT, 200)]\<rparr>)) = 100
   \<and> OCR2B (radio_block (main_init\<lparr>radio := [(wire_code REVERSE_RIGHT, 200)]\<rparr>)) = 55"
  using diagonal_dispatch [of "main_init\<lparr>radio := [(wire_code FORWARD_LEFT, 200)]\<rparr>"
      "wire_code FORWARD_LEFT" 200 "[]" 512 "[]"]
    diagonal_dispatch [of "main_init\<lparr>radio := [(wire_code REVERSE_RIGHT, 200)]\<rparr>"
      "wire_code REVERSE_RIGHT" 200 "[]" 512 "[]"]
  by (simp add: main_init_def reset_state_def motor_desligado_def Let_def drop_bit_eq_div)

text \<open>
  Claim C10. Dispatching REVERSE_LEFT gives the very state that dispatching FORWARD_LEFT
  gives, and REVERSE_RIGHT the state of FORWARD_RIGHT, for every speed byte and every
  state, also as payloads read from the radio. The reverse diagonals do not look at the
  "currently forward" flag: setting it before the dispatch or after makes no difference,
  and with the flag set they still write both duties, where plain REVERSE leaves the
  state as it is.
\<close>

theorem reverse_diagonals_alias:
  "switch_cmd (wire_code REVERSE_LEFT) v s = switch_cmd (wire_code FORWARD_LEFT) v s
   \<and> switch_cmd (wire_code REVERSE_RIGHT) v s = switch_cmd (wire_code FORWARD_RIGHT) v s
   \<and> radio_block (s\<lparr>radio := (wire_code REVERSE_LEFT, v) # q\<rparr>)
       = radio_block (s\<lparr>radio := (wire_code FORWARD_LEFT, v) # q\<rparr>)
   \<and> radio_block (s\<lparr>radio := (wire_code REVERSE_RIGHT, v) # q\<rparr>)
       = radio_block (s\<lparr>radio := (wire_code FORWARD_RIGHT, v) # q\<rparr>)
   \<and> switch_cmd (wire_code REVERSE_LEFT) v (s\<lparr>estado_rele := f\<rparr>)
       = (switch_cmd (wire_code REVERSE_LEFT) v s)\<lparr>estado_rele := f\<rparr>
   \<and> switch_cmd (wire_code REVERSE_RIGHT) v (s\<lparr>estado_rele := f\<rparr>)
       = (switch_cmd (wire_code REVERSE_RIGHT) v s)\<lparr>estado_rele := f\<rparr>
   \<and> OCR0A (switch_cmd (wire_code REVERSE_LEFT) v (s\<lparr>estado_rele := 1\<rparr>)) = 255 - v
   \<and> OCR2B (switch_cmd (wire_code REVERSE_LEFT) v (s\<lparr>estado_rele := 1\<rparr>)) = drop_bit 1 v
   \<and> OCR0A (switch_cmd (wire_code REVERSE_RIGHT) v (s\<lparr>estado_rele := 1\<rparr>)) = drop_bit 1 v
   \<and> OCR2B (switch_cmd (wire_code REVERSE_RIGHT) v (s\<lparr>estado_rele := 1\<rparr>)) = 255 - v
   \<and> switch_cmd (wire_code REVERSE) v (s\<lparr>estado_rele := 1\<rparr>) = s\<lparr>estado_rele := 1\<rparr>"
  by (simp add: switch_cmd_def Let_def motor_ligado_def radio_block_def nrf24_available_def
      nrf24_read_def)

subsection \<open>Lives\<close>

lemma radio_block_alive: "vidas s \<noteq> 0 \<Longrightarrow> vidas (radio_block s) = vidas s"
  by (simp add: radio_block_vidas)

lemma five_ticks:
  assumes "modo_penalidade s = 1" "contador_penalidade s = 0"
  shows "\<exists>s'. run [Tick, Tick, Tick, Tick, Tick] s = Some s' \<and> modo_penalidade s' = 0
    \<and> contador_penalidade s' = 0 \<and> vidas s' = vidas s \<and> ldr_estado s' = ldr_estado s
    \<and> radio s' = radio s"
proof -
  have "unat (contador_penalidade s) + ticks [Tick, Tick, Tick, Tick] < 5"
    using assms(2) by simp
  from penalty_window [OF assms(1) this] obtain t where
    t: "run [Tick, Tick, Tick, Tick] s = Some t" "modo_penalidade t = 1"
      "unat (contador_penalidade t) = unat (contador_penalidade s) + ticks [Tick, Tick, Tick, Tick]"
      "radio t = radio s @ arrivals [Tick, Tick, Tick, Tick]"
      "vidas t = vidas s" "ldr_estado t = ldr_estado s"
    by blast
  have c: "unat (contador_penalidade t) = 4" using t(3) assms(2) by simp
  have "run ([Tick, Tick, Tick, Tick] @ [Tick]) s = Some (TIMER1_COMPA_vect t)"
    using t(1) by (simp only: run_append option.case run.simps)
  then have r: "run [Tick, Tick, Tick, Tick, Tick] s = Some (TIMER1_COMPA_vect t)" by simp
  show ?thesis
    unfolding r using isr_penalty_ends [OF t(2) c] t(4,5,6) by simp
qed

text \<open>A hit: whatever payload the pass dispatches first, lives above 0 are not touched by it.\<close>

lemma hit_pass:
  assumes "modo_penalidade s = 0" "ldr_estado s = 0" "lo < 30" "True \<in> set sc"
    "vidas s = 1 \<or> vidas s = 2 \<or> vidas s = 3"
  shows "\<exists>s1. main_loop lo sc s = Some s1 \<and> vidas s1 = vidas s - 1
    \<and> modo_penalidade s1 = 1 \<and> contador_penalidade s1 = 0 \<and> ldr_estado s1 = 1"
proof -
  let ?b = "radio_block s"
  have v: "vidas ?b = vidas s" using assms(5) by (intro radio_block_alive) auto
  have "modo_penalidade ?b = 0" "ldr_estado ?b = 0" using assms(1,2) by simp_all
  moreover have "vidas ?b = 1 \<or> vidas ?b = 2 \<or> vidas ?b = 3" using v assms(5) by simp
  ultimately obtain s1 where
    s1: "controle_vidas lo sc ?b = Some s1" "vidas s1 = vidas ?b - 1" "modo_penalidade s1 = 1"
      "contador_penalidade s1 = 0" "ldr_estado s1 = 1"
    using controle_vidas_hit [of ?b lo sc] assms(3,4) by blast
  have m: "main_loop lo sc s = Some s1" using assms(1) s1(1) by (simp add: main_loop_def)
  have v1: "vidas s1 = vidas s - 1" using s1(2) v by simp
  show ?thesis using m v1 s1(3,4,5) by blast
qed

text \<open>
  The penalty running out and the reading rising: five ticks, then a pass that reads
  above 30. That pass dispatches a payload if one waits, so at zero lives a waiting
  RESET_LIVES is honoured in it.
\<close>

lemma recover:
  assumes "modo_penalidade s1 = 1" "contador_penalidade s1 = 0" "30 < hi"
  shows "\<exists>t. run [Tick, Tick, Tick, Tick, Tick, Pass hi r] s1 = Some t
    \<and> modo_penalidade t = 0 \<and> ldr_estado t = 0
    \<and> vidas t = (if radio s1 \<noteq> [] \<and> fst (hd (radio s1)) = 0xA1 \<and> vidas s1 = 0
                  then 3 else vidas s1)"
proof -
  from five_ticks [OF assms(1,2)] obtain t where
    t: "run [Tick, Tick, Tick, Tick, Tick] s1 = Some t" "modo_penalidade t = 0"
      "vidas t = vidas s1" "radio t = radio s1"
    by blast
  let ?s2 = "(radio_block t)\<lparr>ldr_estado := 0\<rparr>"
  have p: "main_loop hi r t = Some ?s2"
    using t(2) assms(3) by (simp add: main_loop_def controle_vidas_no_hit above_30)
  have "run ([Tick, Tick, Tick, Tick, Tick] @ [Pass hi r]) s1 = Some ?s2"
    using t(1) p by (simp only: run_append option.case run.simps)
  then have r2: "run [Tick, Tick, Tick, Tick, Tick, Pass hi r] s1 = Some ?s2" by simp
  have v2: "vidas ?s2 = (if radio s1 \<noteq> [] \<and> fst (hd (radio s1)) = 0xA1 \<and> vidas s1 = 0
                  then 3 else vidas s1)"
    using radio_block_vidas [of t] t(3,4) by simp
  have m2: "modo_penalidade ?s2 = 0" using t(2) by simp
  have l2: "ldr_estado ?s2 = 0" by simp
  show ?thesis using r2 m2 l2 v2 by blast
qed

lemma controle_vidas_dead:
  "vidas s = 0 \<Longrightarrow> ldr_val < 30 \<Longrightarrow> controle_vidas ldr_val sched s = Some s"
  by (auto simp: controle_vidas_def word_less_nat_alt)

text \<open>RESET_LIVES as the loop dispatches it: read from the radio and handed to the switch.\<close>

lemma radio_block_reset:
  assumes "radio s = (0xA1, v) # q"
  shows "radio_block s =
    (if vidas s = 0
     then s\<lparr>radio := q, vidas := 3, PORTC := PORTC s XOR (BIT PC4 OR BIT PC3),
            PORTD := PORTD s XOR BIT PD2\<rparr>
     else s\<lparr>radio := q\<rparr>)"
  using assms by (simp add: radio_block_def nrf24_available_def nrf24_read_def switch_cmd_def)

text \<open>
  Claim C3. Start with three lives, not penalized and with the hit latch clear; any
  payloads may be waiting. A pass whose sensor reading is below 30 registers a hit:
  lives go to 2 and the penalty is entered (flag 1, counter 0), provided the timer ticks
  during the busy wait of \<open>vida\<close>. Five ticks end the penalty and a pass reading above 30
  clears the latch. The second and third hit take lives to 1 and to 0 in the same way,
  and after the third the latch is re-armed as before. A further reading below 30 that
  meets zero lives in the cascade decrements nothing and enters no penalty: the cascade
  returns the state it was given, and the pass returns what the dispatch left. (A pass
  that first reads RESET_LIVES at zero lives hands the cascade three lives, so there a
  low reading is a first hit again.) A pass that reads RESET_LIVES from the radio at zero lives sets lives to 3 (and toggles the
  life indicators); at any other number of lives it does nothing but take the payload
  off the queue.
\<close>

theorem life_sequence:
  "(vidas s = 3 \<and> modo_penalidade s = 0 \<and> ldr_estado s = 0
      \<and> lo_a < 30 \<and> lo_b < 30 \<and> lo_c < 30 \<and> 30 < hi_a \<and> 30 < hi_b \<and> 30 < hi_c
      \<and> True \<in> set sc_a \<and> True \<in> set sc_b \<and> True \<in> set sc_c \<longrightarrow>
    (\<exists>s1 t1 s2 t2 s3 t3.
        main_loop lo_a sc_a s = Some s1
      \<and> vidas s1 = 2 \<and> modo_penalidade s1 = 1 \<and> contador_penalidade s1 = 0
      \<and> run [Tick, Tick, Tick, Tick, Tick, Pass hi_a r_a] s1 = Some t1
      \<and> vidas t1 = 2 \<and> modo_penalidade t1 = 0 \<and> ldr_estado t1 = 0
      \<and> main_loop lo_b sc_b t1 = Some s2
      \<and> vidas s2 = 1 \<and> modo_penalidade s2 = 1 \<and> contador_penalidade s2 = 0
      \<and> run [Tick, Tick, Tick, Tick, Tick, Pass hi_b r_b] s2 = Some t2
      \<and> vidas t2 = 1 \<and> modo_penalidade t2 = 0 \<and> ldr_estado t2 = 0
      \<and> main_loop lo_c sc_c t2 = Some s3
      \<and> vidas s3 = 0 \<and> modo_penalidade s3 = 1 \<and> contador_penalidade s3 = 0
      \<and> run [Tick, Tick, Tick, Tick, Tick, Pass hi_c r_c] s3 = Some t3
      \<and> modo_penalidade t3 = 0 \<and> ldr_estado t3 = 0
      \<and> vidas t3 = (if radio s3 \<noteq> [] \<and> fst (hd (radio s3)) = wire_code RESET_LIVES
                     then 3 else 0)))
   \<and> (vidas u = 0 \<and> lo_d < 30 \<longrightarrow> controle_vidas lo_d sc_d u = Some u)
   \<and> (modo_penalidade w \<noteq> 1 \<and> vidas (radio_block w) = 0 \<and> lo_d < 30 \<longrightarrow>
        main_loop lo_d sc_d w = Some (radio_block w)
        \<and> modo_penalidade (radio_block w) = modo_penalidade w)
   \<and> (radio x = (wire_code RESET_LIVES, v) # q \<and> vidas x = 0 \<longrightarrow>
        radio_block x = x\<lparr>radio := q, vidas := 3, PORTC := PORTC x XOR (BIT PC4 OR BIT PC3),
                           PORTD := PORTD x XOR BIT PD2\<rparr>
        \<and> vidas (radio_block x) = 3)
   \<and> (radio x = (wire_code RESET_LIVES, v) # q \<and> vidas x = 0 \<and> modo_penalidade x \<noteq> 1
        \<and> 30 \<le> ldr_val \<longrightarrow>
        (\<exists>x'. main_loop ldr_val sched x = Some x' \<and> vidas x' = 3))
   \<and> (radio y = (wire_code RESET_LIVES, v) # q \<and> vidas y \<noteq> 0 \<longrightarrow>
        radio_block y = y\<lparr>radio := q\<rparr>)"
proof -
  have seq: "vidas s = 3 \<and> modo_penalidade s = 0 \<and> ldr_estado s = 0
      \<and> lo_a < 30 \<and> lo_b < 30 \<and> lo_c < 30 \<and> 30 < hi_a \<and> 30 < hi_b \<and> 30 < hi_c
      \<and> True \<in> set sc_a \<and> True \<in> set sc_b \<and> True \<in> set sc_c \<longrightarrow>
    (\<exists>s1 t1 s2 t2 s3 t3.
        main_loop lo_a sc_a s = Some s1
      \<and> vidas s1 = 2 \<and> modo_penalidade s1 = 1 \<and> contador_penalidade s1 = 0
      \<and> run [Tick, Tick, Tick, Tick, Tick, Pass hi_a r_a] s1 = Some t1
      \<and> vidas t1 = 2 \<and> modo_penalidade t1 = 0 \<and> ldr_estado t1 = 0
      \<and> main_loop lo_b sc_b t1 = Some s2
      \<and> vidas s2 = 1 \<and> modo_penalidade s2 = 1 \<and> contador_penalidade s2 = 0
      \<and> run [Tick, Tick, Tick, Tick, Tick, Pass hi_b r_b] s2 = Some t2
      \<and> vidas t2 = 1 \<and> modo_penalidade t2 = 0 \<and> ldr_estado t2 = 0
      \<and> main_loop lo_c sc_c t2 = Some s3
      \<and> vidas s3 = 0 \<and> modo_penalidade s3 = 1 \<and> contador_penalidade s3 = 0
      \<and> run [Tick, Tick, Tick, Tick, Tick, Pass hi_c r_c] s3 = Some t3
      \<and> modo_penalidade t3 = 0 \<and> ldr_estado t3 = 0
      \<and> vidas t3 = (if radio s3 \<noteq> [] \<and> fst (hd (radio s3)) = wire_code RESET_LIVES
                     then 3 else 0))"
  proof
    assume h: "vidas s = 3 \<and> modo_penalidade s = 0 \<and> ldr_estado s = 0
      \<and> lo_a < 30 \<and> lo_b < 30 \<and> lo_c < 30 \<and> 30 < hi_a \<and> 30 < hi_b \<and> 30 < hi_c
      \<and> True \<in> set sc_a \<and> True \<in> set sc_b \<and> True \<in> set sc_c"
    from hit_pass [of s lo_a sc_a] h obtain s1 where
      a: "main_loop lo_a sc_a s = Some s1" "vidas s1 = 2" "modo_penalidade s1 = 1"
        "contador_penalidade s1 = 0"
      by auto
    from recover [OF a(3,4), of hi_a r_a] h a(2) obtain t1 where
      b: "run [Tick, Tick, Tick, Tick, Tick, Pass hi_a r_a] s1 = Some t1"
        "vidas t1 = 2" "modo_penalidade t1 = 0" "ldr_estado t1 = 0"
      by auto
    from hit_pass [of t1 lo_b sc_b] h b(2,3,4) obtain s2 where
      c: "main_loop lo_b sc_b t1 = Some s2" "vidas s2 = 1" "modo_penalidade s2 = 1"
        "contador_penalidade s2 = 0"
      by auto
    from recover [OF c(3,4), of hi_b r_b] h c(2) obtain t2 where
      d: "run [Tick, Tick, Tick, Tick, Tick, Pass hi_b r_b] s2 = Some t2"
        "vidas t2 = 1" "modo_penalidade t2 = 0" "ldr_estado t2 = 0"
      by auto
    from hit_pass [of t2 lo_c sc_c] h d(2,3,4) obtain s3 where
      e: "main_loop lo_c sc_c t2 = Some s3" "vidas s3 = 0" "modo_penalidade s3 = 1"
        "contador_penalidade s3 = 0"
      by auto
    from recover [OF e(3,4), of hi_c r_c] h e(2) obtain t3 where
      f: "run [Tick, Tick, Tick, Tick, Tick, Pass hi_c r_c] s3 = Some t3"
        "modo_penalidade t3 = 0" "ldr_estado t3 = 0"
        "vidas t3 = (if radio s3 \<noteq> [] \<and> fst (hd (radio s3)) = wire_code RESET_LIVES
                     then 3 else 0)"
      by auto
    show "\<exists>s1 t1 s2 t2 s3 t3.
        main_loop lo_a sc_a s = Some s1
      \<and> vidas s1 = 2 \<and> modo_penalidade s1 = 1 \<and> contador_penalidade s1 = 0
      \<and> run [Tick, Tick, Tick, Tick, Tick, Pass hi_a r_a] s1 = Some t1
      \<and> vidas t1 = 2 \<and> modo_penalidade t1 = 0 \<and> ldr_estado t1 = 0
      \<and> main_loop lo_b sc_b t1 = Some s2
      \<and> vidas s2 = 1 \<and> modo_penalidade s2 = 1 \<and> contador_penalidade s2 = 0
      \<and> run [Tick, Tick, Tick, Tick, Tick, Pass hi_b r_b] s2 = Some t2
      \<and> vidas t2 = 1 \<and> modo_penalidade t2 = 0 \<and> ldr_estado t2 = 0
      \<and> main_loop lo_c sc_c t2 = Some s3
      \<and> vidas s3 = 0 \<and> modo_penalidade s3 = 1 \<and> contador_penalidade s3 = 0
      \<and> run [Tick, Tick, Tick, Tick, Tick, Pass hi_c r_c] s3 = Some t3
      \<and> modo_penalidade t3 = 0 \<and> ldr_estado t3 = 0
      \<and> vidas t3 = (if radio s3 \<noteq> [] \<and> fst (hd (radio s3)) = wire_code RESET_LIVES
                     then 3 else 0)"
      using a b c d e f by blast
  qed
  have dead: "vidas u = 0 \<and> lo_d < 30 \<longrightarrow> controle_vidas lo_d sc_d u = Some u"
    by (simp add: controle_vidas_dead)
  have fourth: "modo_penalidade w \<noteq> 1 \<and> vidas (radio_block w) = 0 \<and> lo_d < 30 \<longrightarrow>
        main_loop lo_d sc_d w = Some (radio_block w)
        \<and> modo_penalidade (radio_block w) = modo_penalidade w"
    by (simp add: main_loop_def controle_vidas_dead)
  have r0: "radio x = (wire_code RESET_LIVES, v) # q \<and> vidas x = 0 \<longrightarrow>
        radio_block x = x\<lparr>radio := q, vidas := 3, PORTC := PORTC x XOR (BIT PC4 OR BIT PC3),
                           PORTD := PORTD x XOR BIT PD2\<rparr>
        \<and> vidas (radio_block x) = 3"
    using radio_block_reset [of x v q] by simp
  have rp: "radio x = (wire_code RESET_LIVES, v) # q \<and> vidas x = 0 \<and> modo_penalidade x \<noteq> 1
        \<and> 30 \<le> ldr_val \<longrightarrow>
        (\<exists>x'. main_loop ldr_val sched x = Some x' \<and> vidas x' = 3)"
    using radio_block_reset [of x v q]
    by (auto simp: main_loop_def controle_vidas_no_hit not_below_30)
  have rl: "radio y = (wire_code RESET_LIVES, v) # q \<and> vidas y \<noteq> 0 \<longrightarrow>
        radio_block y = y\<lparr>radio := q\<rparr>"
    using radio_block_reset [of y v q] by simp
  show ?thesis using seq dead fourth r0 rp rl by blast
qed

theorem life_sequence_witness:
  "vidas (main_init\<lparr>radio := [(wire_code RESET_LIVES, 7)]\<rparr>) = 3
   \<and> modo_penalidade (main_init\<lparr>radio := [(wire_code RESET_LIVES, 7)]\<rparr>) = 0
   \<and> ldr_estado (main_init\<lparr>radio := [(wire_code RESET_LIVES, 7)]\<rparr>) = 0
   \<and> (10 :: u16) < 30 \<and> (30 :: u16) < 600 \<and> True \<in> set [False, True]
   \<and> (\<exists>s1 t1 s2 t2 s3 t3.
        main_loop 10 [False, True] (main_init\<lparr>radio := [(wire_code RESET_LIVES, 7)]\<rparr>)
          = Some s1
      \<and> vidas s1 = 2 \<and> modo_penalidade s1 = 1 \<and> contador_penalidade s1 = 0
      \<and> run [Tick, Tick, Tick, Tick, Tick, Pass 600 []] s1 = Some t1
      \<and> vidas t1 = 2 \<and> modo_penalidade t1 = 0 \<and> ldr_estado t1 = 0
      \<and> main_loop 10 [False, True] t1 = Some s2
      \<and> vidas s2 = 1 \<and> modo_penalidade s2 = 1 \<and> contador_penalidade s2 = 0
      \<and> run [Tick, Tick, Tick, Tick, Tick, Pass 600 []] s2 = Some t2
      \<and> vidas t2 = 1 \<and> modo_penalidade t2 = 0 \<and> ldr_estado t2 = 0
      \<and> main_loop 10 [False, True] t2 = Some s3
      \<and> vidas s3 = 0 \<and> modo_penalidade s3 = 1 \<and> contador_penalidade s3 = 0
      \<and> run [Tick, Tick, Tick, Tick, Tick, Pass 600 []] s3 = Some t3
      \<and> modo_penalidade t3 = 0 \<and> ldr_estado t3 = 0
      \<and> vidas t3 = (if radio s3 \<noteq> [] \<and> fst (hd (radio s3)) = wire_code RESET_LIVES
                     then 3 else 0))
   \<and> vidas (main_init\<lparr>vidas := 0\<rparr>) = 0
   \<and> controle_vidas 10 [] (main_init\<lparr>vidas := 0\<rparr>) = Some (main_init\<lparr>vidas := 0\<rparr>)
   \<and> modo_penalidade (main_init\<lparr>vidas := 0, radio := [(wire_code STOP, 255)]\<rparr>) \<noteq> 1
   \<and> vidas (radio_block (main_init\<lparr>vidas := 0, radio := [(wire_code STOP, 255)]\<rparr>)) = 0
   \<and> main_loop 10 [] (main_init\<lparr>vidas := 0, radio := [(wire_code STOP, 255)]\<rparr>)
       = Some (radio_block (main_init\<lparr>vidas := 0, radio := [(wire_code STOP, 255)]\<rparr>))
   \<and> radio (main_init\<lparr>vidas := 0, radio := [(wire_code RESET_LIVES, 7)]\<rparr>)
       = [(wire_code RESET_LIVES, 7)]
   \<and> vidas (main_init\<lparr>vidas := 0, radio := [(wire_code RESET_LIVES, 7)]\<rparr>) = 0
   \<and> vidas (radio_block (main_init\<lparr>vidas := 0, radio := [(wire_code RESET_LIVES, 7)]\<rparr>)) = 3
   \<and> (30 :: u16) \<le> 512
   \<and> (\<exists>x'. main_loop 512 [] (main_init\<lparr>vidas := 0, radio := [(wire_code RESET_LIVES, 7)]\<rparr>)
            = Some x' \<and> vidas x' = 3)
   \<and> vidas (main_init\<lparr>radio := [(wire_code RESET_LIVES, 7)]\<rparr>) \<noteq> 0
   \<and> radio_block (main_init\<lparr>radio := [(wire_code RESET_LIVES, 7)]\<rparr>)
       = main_init\<lparr>radio := []\<rparr>"
proof -
  let ?s = "main_init\<lparr>radio := [(wire_code RESET_LIVES, 7)]\<rparr>"
  let ?u = "main_init\<lparr>vidas := 0\<rparr>"
  let ?w = "main_init\<lparr>vidas := 0, radio := [(wire_code STOP, 255)]\<rparr>"
  let ?x = "main_init\<lparr>vidas := 0, radio := [(wire_code RESET_LIVES, 7)]\<rparr>"
  note th = life_sequence [where s = ?s and lo_a = 10 and lo_b = 10 and lo_c = 10
      and hi_a = 600 and hi_b = 600 and hi_c = 600
      and sc_a = "[False, True]" and sc_b = "[False, True]" and sc_c = "[False, True]"
      and r_a = "[]" and r_b = "[]" and r_c = "[]"
      and u = ?u and lo_d = 10 and sc_d = "[]" and w = ?w
      and x = ?x and v = 7 and q = "[]" and ldr_val = 512 and sched = "[]" and y = ?s]
  have i: "vidas ?s = 3" "modo_penalidade ?s = 0" "ldr_estado ?s = 0"
    "vidas ?u = 0" "modo_penalidade ?w \<noteq> 1" "vidas ?x = 0" "modo_penalidade ?x \<noteq> 1"
    "vidas ?s \<noteq> 0" "radio ?x = [(wire_code RESET_LIVES, 7)]"
    "radio ?s = [(wire_code RESET_LIVES, 7)]"
    by (simp_all add: main_init_def reset_state_def motor_desligado_def Let_def)
  have n: "(10 :: u16) < 30" "(30 :: u16) < 600" "True \<in> set [False, True]"
    "(30 :: u16) \<le> 512"
    by simp_all
  have w: "vidas (radio_block ?w) = 0"
    by (simp add: radio_block_vidas main_init_def reset_state_def motor_desligado_def Let_def)
  have e: "?s\<lparr>radio := []\<rparr> = main_init\<lparr>radio := []\<rparr>" by simp
  from th have 1: "\<exists>s1 t1 s2 t2 s3 t3.
        main_loop 10 [False, True] ?s = Some s1
      \<and> vidas s1 = 2 \<and> modo_penalidade s1 = 1 \<and> contador_penalidade s1 = 0
      \<and> run [Tick, Tick, Tick, Tick, Tick, Pass 600 []] s1 = Some t1
      \<and> vidas t1 = 2 \<and> modo_penalidade t1 = 0 \<and> ldr_estado t1 = 0
      \<and> main_loop 10 [False, True] t1 = Some s2
      \<and> vidas s2 = 1 \<and> modo_penalidade s2 = 1 \<and> contador_penalidade s2 = 0
      \<and> run [Tick, Tick, Tick, Tick, Tick, Pass 600 []] s2 = Some t2
      \<and> vidas t2 = 1 \<and> modo_penalidade t2 = 0 \<and> ldr_estado t2 = 0
      \<and> main_loop 10 [False, True] t2 = Some s3
      \<and> vidas s3 = 0 \<and> modo_penalidade s3 = 1 \<and> contador_penalidade s3 = 0
      \<and> run [Tick, Tick, Tick, Tick, Tick, Pass 600 []] s3 = Some t3
      \<and> modo_penalidade t3 = 0 \<and> ldr_estado t3 = 0
      \<and> vidas t3 = (if radio s3 \<noteq> [] \<and> fst (hd (radio s3)) = wire_code RESET_LIVES
                     then 3 else 0)"
    using i(1,2,3) n(1,2,3) by blast
  from th have 2: "controle_vidas 10 [] ?u = Some ?u" using i(4) n(1) by blast
  from th have 3: "main_loop 10 [] ?w = Some (radio_block ?w)" using i(5) w n(1) by blast
  from th have 4: "vidas (radio_block ?x) = 3" using i(6,9) by blast
  from th have 5: "\<exists>x'. main_loop 512 [] ?x = Some x' \<and> vidas x' = 3"
    using i(6,7,9) n(4) by blast
  from th have "radio_block ?s = ?s\<lparr>radio := []\<rparr>" using i(8,10) by blast
  then have 6: "radio_block ?s = main_init\<lparr>radio := []\<rparr>" using e by simp
  show ?thesis by (intro conjI i(1,2,3,4,5,6,8,9) n w 1 2 3 4 5 6)
qed

subsection \<open>The hit latch\<close>

lemma espera_tick_keeps:
  "espera_tick sched s = Some s' \<Longrightarrow> vidas s' = vidas s \<and> ldr_estado s' = ldr_estado s"
proof (induction sched arbitrary: s)
  case Nil
  then show ?case by (simp split: if_splits)
next
  case (Cons t ts)
  show ?case
  proof (cases "tempo_rotacao s \<noteq> 0")
    case True
    then show ?thesis using Cons.prems by simp
  next
    case False
    then have "espera_tick ts (if t then TIMER1_COMPA_vect s else s) = Some s'"
      using Cons.prems by simp
    from Cons.IH [OF this] show ?thesis by (simp split: if_splits)
  qed
qed

lemma vida_keeps:
  assumes "vida sched s = Some s'"
  shows "vidas s' = vidas s \<and> ldr_estado s' = ldr_estado s"
proof -
  let ?s3 = "(motor_ligado (s\<lparr>PORTD := PORTD s OR BIT PD0\<rparr>))\<lparr>tempo_rotacao := 0\<rparr>"
  from assms obtain s4 where
    w: "espera_tick sched ?s3 = Some s4"
    and r: "s' = s4\<lparr>tempo_rotacao := 0, modo_penalidade := 1, contador_penalidade := 0,
                   PORTC := PORTC s4 AND NOT (BIT PC1)\<rparr>"
    by (auto simp: vida_def Let_def split: option.splits)
  from espera_tick_keeps [OF w] show ?thesis by (simp add: r)
qed

lemma controle_vidas_low:
  assumes "ldr_val \<le> 30" "controle_vidas ldr_val sched s = Some s'"
  shows "(ldr_estado s \<noteq> 0 \<longrightarrow> s' = s)
    \<and> (s' = s \<or> (ldr_estado s' \<noteq> 0 \<and> unat (vidas s) \<le> unat (vidas s') + 1))"
proof -
  have n: "\<not> 30 < ldr_val" using assms(1) by (simp add: word_le_nat_alt word_less_nat_alt)
  consider (hit3) "ldr_val < 30" "vidas s = 3" "ldr_estado s = 0"
    | (hit2) "ldr_val < 30" "vidas s = 2" "ldr_estado s = 0"
    | (hit1) "ldr_val < 30" "vidas s = 1" "ldr_estado s = 0"
    | (none) "\<not> (ldr_val < 30 \<and> vidas s = 3 \<and> ldr_estado s = 0)"
        "\<not> (ldr_val < 30 \<and> vidas s = 2 \<and> ldr_estado s = 0)"
        "\<not> (ldr_val < 30 \<and> vidas s = 1 \<and> ldr_estado s = 0)"
    by blast
  then show ?thesis
  proof cases
    case hit3
    then have "vida sched (s\<lparr>vidas := vidas s - 1, PORTC := PORTC s AND NOT (BIT PC3),
        ldr_estado := 1\<rparr>) = Some s'"
      using assms(2) by (simp add: controle_vidas_def)
    from vida_keeps [OF this] show ?thesis using hit3 by simp
  next
    case hit2
    then have "vida sched (s\<lparr>vidas := vidas s - 1, PORTC := PORTC s AND NOT (BIT PC4),
        ldr_estado := 1\<rparr>) = Some s'"
      using assms(2) by (simp add: controle_vidas_def)
    from vida_keeps [OF this] show ?thesis using hit2 by simp
  next
    case hit1
    then have "vida sched (s\<lparr>vidas := vidas s - 1, PORTD := PORTD s AND NOT (BIT PD2),
        ldr_estado := 1\<rparr>) = Some s'"
      using assms(2) by (simp add: controle_vidas_def)
    from vida_keeps [OF this] show ?thesis using hit1 by simp
  next
    case none
    have "controle_vidas ldr_val sched s = Some s"
      unfolding controle_vidas_def by (simp only: none n if_False)
    then have "s' = s" using assms(2) by simp
    then show ?thesis by simp
  qed
qed

lemma radio_block_vidas_le: "unat (vidas s) \<le> unat (vidas (radio_block s))"
  by (simp add: radio_block_vidas)

lemma pass_low:
  assumes "ldr_val \<le> 30" "main_loop ldr_val sched s = Some s'"
  shows "(ldr_estado s \<noteq> 0 \<longrightarrow> ldr_estado s' \<noteq> 0 \<and> unat (vidas s) \<le> unat (vidas s'))
    \<and> (unat (vidas s) \<le> unat (vidas s')
        \<or> (ldr_estado s' \<noteq> 0 \<and> unat (vidas s) \<le> unat (vidas s') + 1))"
proof (cases "modo_penalidade s = 1")
  case True
  then have "s' = motor_desligado s" using assms(2) by (simp add: main_loop_def)
  then show ?thesis by simp
next
  case False
  then have c: "controle_vidas ldr_val sched (radio_block s) = Some s'"
    using assms(2) by (simp add: main_loop_def)
  from controle_vidas_low [OF assms(1) c] radio_block_vidas_le [of s]
  show ?thesis by (auto simp del: radio_block_keeps simp: radio_block_keeps(4))
qed

lemma run_low:
  assumes "\<forall>l \<in> set (readings es). l \<le> 30" "run es s = Some s'"
  shows "(ldr_estado s \<noteq> 0 \<longrightarrow> ldr_estado s' \<noteq> 0 \<and> unat (vidas s) \<le> unat (vidas s'))
    \<and> unat (vidas s) \<le> unat (vidas s') + 1"
  using assms
proof (induction es arbitrary: s)
  case Nil
  then show ?case by simp
next
  case (Cons e es)
  show ?case
  proof (cases e)
    case Tick
    then have "run es (TIMER1_COMPA_vect s) = Some s'" using Cons.prems(2) by simp
    moreover have "\<forall>l \<in> set (readings es). l \<le> 30" using Cons.prems(1) Tick by simp
    ultimately show ?thesis using Cons.IH [of "TIMER1_COMPA_vect s"] by simp
  next
    case (Arrive cmd velocidade)
    then have "run es (s\<lparr>radio := radio s @ [(cmd, velocidade)]\<rparr>) = Some s'"
      using Cons.prems(2) by simp
    moreover have "\<forall>l \<in> set (readings es). l \<le> 30" using Cons.prems(1) Arrive by simp
    ultimately show ?thesis
      using Cons.IH [of "s\<lparr>radio := radio s @ [(cmd, velocidade)]\<rparr>"] by simp
  next
    case (Pass ldr_val sched)
    then obtain t where t: "main_loop ldr_val sched s = Some t" "run es t = Some s'"
      using Cons.prems(2) by (auto split: option.splits)
    have l: "ldr_val \<le> 30" and r: "\<forall>l \<in> set (readings es). l \<le> 30"
      using Cons.prems(1) Pass by simp_all
    from pass_low [OF l t(1)] Cons.IH [OF r t(2)]
    show ?thesis by linarith
  qed
qed

text \<open>
  Claim C5, as stated, clears the latch at a reading of exactly 30. The cascade tests
  \<open>ldr_val < 30\<close> for a hit and \<open>ldr_val > 30\<close> for the clear, so 30 does neither: a pass
  that is not penalized, has the latch set and reads 30 leaves the state, latch
  included, as it was.
\<close>

theorem latch_at_threshold_counterexample:
  "modo_penalidade (main_init\<lparr>vidas := 2, ldr_estado := 1\<rparr>) = 0
   \<and> ldr_estado (main_init\<lparr>vidas := 2, ldr_estado := 1\<rparr>) = 1
   \<and> (30 :: u16) \<ge> 30
   \<and> main_loop 30 [] (main_init\<lparr>vidas := 2, ldr_estado := 1\<rparr>)
       = Some (main_init\<lparr>vidas := 2, ldr_estado := 1\<rparr>)
   \<and> ldr_estado (main_init\<lparr>vidas := 2, ldr_estado := 1\<rparr>) \<noteq> 0"
  by (simp add: main_loop_def radio_block_def nrf24_available_def controle_vidas_def
      main_init_def reset_state_def motor_desligado_def Let_def)

lemma low_pass_latched:
  assumes "modo_penalidade s \<noteq> 1" "ldr_estado s \<noteq> 0" "radio s = []" "ldr_val \<le> 30"
  shows "main_loop ldr_val sched s = Some s"
proof -
  have b: "radio_block s = s" using assms(3) by (simp add: radio_block_def nrf24_available_def)
  have n: "\<not> 30 < ldr_val" using assms(4) by (simp add: word_le_nat_alt word_less_nat_alt)
  have "controle_vidas ldr_val sched s = Some s"
    unfolding controle_vidas_def using assms(2) n by simp
  then show ?thesis using assms(1) b by (simp add: main_loop_def)
qed

text \<open>
  Claim C5, amended. The hit latch is cleared in any pass that is not penalized and
  whose sensor reading is greater than 30. A reading of exactly 30 leaves the latch as
  it is, and so does every penalized pass, which ends before the sensor is looked at.
  Consequently a sustained reading that never rises above 30 decrements lives at most
  once: over any run of ticks, arrivals and passes with such readings, lives at the end
  are at most one below lives at the start, and if the latch was already set at the
  start it is still set and lives have not gone down at all.
\<close>

theorem latch_clear:
  "(modo_penalidade s \<noteq> 1 \<and> 30 < ldr_val \<longrightarrow>
      (\<exists>s'. main_loop ldr_val sched s = Some s' \<and> ldr_estado s' = 0))
   \<and> (modo_penalidade s \<noteq> 1 \<longrightarrow>
      (\<exists>s'. main_loop 30 sched s = Some s' \<and> ldr_estado s' = ldr_estado s))
   \<and> (modo_penalidade s = 1 \<longrightarrow>
      (\<exists>s'. main_loop ldr_val sched s = Some s' \<and> ldr_estado s' = ldr_estado s))
   \<and> ((\<forall>l \<in> set (readings es). l \<le> 30) \<and> run es s = Some t \<longrightarrow>
        unat (vidas s) \<le> unat (vidas t) + 1
        \<and> (ldr_estado s \<noteq> 0 \<longrightarrow> ldr_estado t \<noteq> 0 \<and> unat (vidas s) \<le> unat (vidas t)))"
proof -
  have a: "modo_penalidade s \<noteq> 1 \<and> 30 < ldr_val \<longrightarrow>
      (\<exists>s'. main_loop ldr_val sched s = Some s' \<and> ldr_estado s' = 0)"
    by (simp add: main_loop_def controle_vidas_no_hit above_30)
  have b: "modo_penalidade s \<noteq> 1 \<longrightarrow>
      (\<exists>s'. main_loop 30 sched s = Some s' \<and> ldr_estado s' = ldr_estado s)"
    by (simp add: main_loop_def controle_vidas_no_hit)
  have c: "modo_penalidade s = 1 \<longrightarrow>
      (\<exists>s'. main_loop ldr_val sched s = Some s' \<and> ldr_estado s' = ldr_estado s)"
    by (simp add: main_loop_def)
  have d: "(\<forall>l \<in> set (readings es). l \<le> 30) \<and> run es s = Some t \<longrightarrow>
        unat (vidas s) \<le> unat (vidas t) + 1
        \<and> (ldr_estado s \<noteq> 0 \<longrightarrow> ldr_estado t \<noteq> 0 \<and> unat (vidas s) \<le> unat (vidas t))"
    using run_low [of es s t] by blast
  show ?thesis using a b c d by blast
qed

theorem latch_clear_witness:
  "modo_penalidade (main_init\<lparr>vidas := 2, ldr_estado := 1\<rparr>) \<noteq> 1 \<and> (30 :: u16) < 600
   \<and> (\<exists>s'. main_loop 600 [] (main_init\<lparr>vidas := 2, ldr_estado := 1\<rparr>) = Some s'
          \<and> ldr_estado s' = 0)
   \<and> (\<exists>s'. main_loop 30 [] (main_init\<lparr>vidas := 2, ldr_estado := 1\<rparr>) = Some s'
          \<and> ldr_estado s' = 1)
   \<and> readings [Pass 10 [True], Tick, Tick, Tick, Tick, Tick, Pass 10 [], Pass 10 []]
       = [10, 10, 10]
   \<and> (10 :: u16) \<le> 30
   \<and> (\<exists>t. run [Pass 10 [True], Tick, Tick, Tick, Tick, Tick, Pass 10 [], Pass 10 []]
             main_init = Some t
          \<and> vidas main_init = 3 \<and> vidas t = 2 \<and> ldr_estado t = 1
          \<and> unat (vidas main_init) \<le> unat (vidas t) + 1)"
proof -
  let ?es = "[Pass 10 [True], Tick, Tick, Tick, Tick, Tick, Pass 10 [], Pass 10 []]"
  let ?x = "main_init\<lparr>vidas := 2, ldr_estado := 1\<rparr>"
  have m: "modo_penalidade ?x \<noteq> 1" "ldr_estado ?x = 1" "vidas main_init = 3"
    by (simp_all add: main_init_def reset_state_def motor_desligado_def Let_def)
  have r: "readings ?es = [10, 10, 10]" by simp
  have ra: "\<forall>l \<in> set (readings ?es). l \<le> 30" by simp
  have "\<exists>s1. main_loop 10 [True] main_init = Some s1 \<and> vidas s1 = 2
      \<and> modo_penalidade s1 = 1 \<and> contador_penalidade s1 = 0 \<and> ldr_estado s1 = 1
      \<and> radio s1 = []"
    by (simp add: main_loop_def radio_block_def nrf24_available_def controle_vidas_def
        vida_def TIMER1_COMPA_vect_def motor_ligado_def motor_desligado_def main_init_def
        reset_state_def Let_def BIT_def)
  then obtain s1 where s1: "main_loop 10 [True] main_init = Some s1" "vidas s1 = 2"
      "modo_penalidade s1 = 1" "contador_penalidade s1 = 0" "ldr_estado s1 = 1"
      "radio s1 = []"
    by blast
  from five_ticks [OF s1(3,4)] obtain t where
    t: "run [Tick, Tick, Tick, Tick, Tick] s1 = Some t" "modo_penalidade t = 0"
      "vidas t = vidas s1" "ldr_estado t = ldr_estado s1" "radio t = radio s1"
    by blast
  have p: "main_loop 10 [] t = Some t"
    using t(2,4,5) s1(5,6) by (intro low_pass_latched) simp_all
  have "run ([Tick, Tick, Tick, Tick, Tick] @ [Pass 10 [], Pass 10 []]) s1 = Some t"
    using t(1) p by (simp only: run_append option.case run.simps)
  then have "run ?es main_init = Some t" using s1(1) by simp
  then have e: "run ?es main_init = Some t" "vidas t = 2" "ldr_estado t = 1"
    using t(3,4) s1(2,5) by simp_all
  have u: "unat (vidas main_init) \<le> unat (vidas t) + 1"
    using latch_clear [of main_init 600 "[]" ?es t] ra e(1) by blast
  have a: "\<exists>s'. main_loop 600 [] ?x = Some s' \<and> ldr_estado s' = 0"
    using latch_clear [of ?x 600 "[]" ?es t] m(1) by simp
  have b: "\<exists>s'. main_loop 30 [] ?x = Some s' \<and> ldr_estado s' = 1"
    using latch_clear [of ?x 600 "[]" ?es t] m(1,2) by simp
  have c: "\<exists>t. run ?es main_init = Some t
          \<and> vidas main_init = 3 \<and> vidas t = 2 \<and> ldr_estado t = 1
          \<and> unat (vidas main_init) \<le> unat (vidas t) + 1"
    using e m(3) u by blast
  have h: "(30 :: u16) < 600" "(10 :: u16) \<le> 30" by simp_all
  show ?thesis by (intro conjI m(1) h a b r c)
qed

end
